theory Spec2Isabelle
  imports Complex_Main
begin

section \<open>Solar PV dashboard: exporters and derived metrics\<close>

text \<open>
  A shallow embedding of the arithmetic and of the gauge updates of the repository's four
  Python files. Python floats are read as real numbers throughout: rounding, infinities and
  NaN are outside the model, so every equation below is an equation of exact arithmetic.
\<close>

subsection \<open>Estimated solar power (live dashboard and live exporter)\<close>

text \<open>
  Both \<^verbatim>\<open>calculate_estimated_solar_power\<close> functions compute the time-of-day factor with the
  same expression: \<^verbatim>\<open>abs(math.sin((hour - 6) * math.pi / 14))\<close> when \<^verbatim>\<open>6 <= hour <= 20\<close>,
  otherwise \<^verbatim>\<open>0\<close>.
\<close>

definition time_factor :: "real \<Rightarrow> real" where
  "time_factor hour =
     (if 6 \<le> hour \<and> hour \<le> 20 then \<bar>sin ((hour - 6) * pi / 14)\<bar> else 0)"

text \<open>
  \<^verbatim>\<open>exporter_live.py\<close>, lines 27 to 44. The caller passes \<^verbatim>\<open>datetime.now().hour\<close>, an integer.
\<close>

definition calculate_estimated_solar_power_exporter :: "real \<Rightarrow> real \<Rightarrow> int \<Rightarrow> real" where
  "calculate_estimated_solar_power_exporter cloud_cover uv_index current_hour =
     (let max_power = 5000;
          cloud_factor = (100 - cloud_cover) / 100;
          uv_factor = min (uv_index / 11) 1.0;
          tf = time_factor (real_of_int current_hour);
          estimated_power = max_power * cloud_factor * uv_factor * tf
      in max 0 estimated_power)"

text \<open>
  \<^verbatim>\<open>dashboard_live.py\<close>, lines 59 to 84. The third argument is a \<^verbatim>\<open>datetime\<close>, of which the
  function reads the fields \<^verbatim>\<open>hour\<close> and \<^verbatim>\<open>minute\<close>; the fourth defaults to 25.
\<close>

record time_of_day =
  hour :: nat
  minute :: nat

definition default_temp :: real where
  "default_temp = 25"

definition calculate_estimated_solar_power_dashboard ::
  "real \<Rightarrow> real \<Rightarrow> time_of_day \<Rightarrow> real \<Rightarrow> real" where
  "calculate_estimated_solar_power_dashboard cloud_cover uv_index tod temp =
     (let max_power = 5.0;
          cloud_factor = (100 - cloud_cover) / 100;
          uv_factor = min (uv_index / 10) 1.0;
          h = real (hour tod) + real (minute tod) / 60;
          tf = time_factor h;
          temp_factor = 1 - (max 0 (temp - 25) * 0.005);
          estimated_power = max_power * cloud_factor * uv_factor * tf * temp_factor
      in max 0 estimated_power)"

subsection \<open>Errors and the gauge registry\<close>

text \<open>
  The exceptions the modelled code can meet. \<^verbatim>\<open>KeyError\<close> carries the missing column label.
\<close>

datatype py_error =
    FileNotFoundError
  | EmptyDataError
  | ParserError
  | IndexError
  | KeyError string
  | ValueError string
  | RequestException

text \<open>
  The process-wide registry of \<^verbatim>\<open>prometheus_client\<close>: the registered gauge names, each with
  its current value. \<^verbatim>\<open>Gauge(name, doc)\<close> registers a new gauge with value 0 and raises
  \<^verbatim>\<open>ValueError\<close> for a name that is registered already; \<^verbatim>\<open>g.set(v)\<close> overwrites the value
  of the gauge \<^verbatim>\<open>g\<close>. A module-level gauge variable is represented by its metric name.
\<close>

type_synonym registry = "string \<rightharpoonup> real"

definition Gauge :: "string \<Rightarrow> registry \<Rightarrow> py_error + registry" where
  "Gauge name reg =
     (case reg name of
        Some v \<Rightarrow> Inl (ValueError name)
      | None \<Rightarrow> Inr (reg(name \<mapsto> 0)))"

fun register_gauges :: "string list \<Rightarrow> registry \<Rightarrow> py_error + registry" where
  "register_gauges [] reg = Inr reg"
| "register_gauges (n # ns) reg =
     (case Gauge n reg of Inl e \<Rightarrow> Inl e | Inr reg' \<Rightarrow> register_gauges ns reg')"

definition gauge_set :: "string \<Rightarrow> real \<Rightarrow> registry \<Rightarrow> registry" where
  "gauge_set g v reg = reg(g \<mapsto> v)"

text \<open>
  A block of statements \<^verbatim>\<open>g.set(e)\<close> run in order. The expression \<open>e\<close> is evaluated first; if
  it raises, the block stops there and the gauges set so far keep their new values. The
  outcome records the exception that left the block (if any), the gauges set by the block,
  in order, and the registry.
\<close>

record outcome =
  raised :: "py_error option"
  touched :: "string list"
  gauges :: registry

type_synonym stmt = "string \<times> (py_error + real)"

fun exec :: "stmt list \<Rightarrow> string list \<Rightarrow> registry \<Rightarrow> outcome" where
  "exec [] acc reg = \<lparr>raised = None, touched = acc, gauges = reg\<rparr>"
| "exec ((g, e) # ss) acc reg =
     (case e of
        Inl err \<Rightarrow> \<lparr>raised = Some err, touched = acc, gauges = reg\<rparr>
      | Inr v \<Rightarrow> exec ss (acc @ [g]) (gauge_set g v reg))"

definition skipped :: "registry \<Rightarrow> outcome" where
  "skipped reg = \<lparr>raised = None, touched = [], gauges = reg\<rparr>"

definition and_then :: "py_error + 'a \<Rightarrow> ('a \<Rightarrow> py_error + 'b) \<Rightarrow> py_error + 'b" where
  "and_then r f = (case r of Inl e \<Rightarrow> Inl e | Inr v \<Rightarrow> f v)"

subsection \<open>The CSV table\<close>

text \<open>
  A \<^verbatim>\<open>pandas\<close> data frame, reduced to what the exporter reads: the column labels and the rows
  of numeric cells (the date and time columns of the inverter export are never read by the
  exporter). \<^verbatim>\<open>pd.read_csv\<close> is library code; it is modelled by its result on four kinds of
  file: a missing file raises \<^verbatim>\<open>FileNotFoundError\<close>, a file with no content raises
  \<^verbatim>\<open>EmptyDataError\<close>, a file that cannot be tokenised raises \<^verbatim>\<open>ParserError\<close>, any other file
  gives a frame (with no rows when the file holds only a header line). Cells that are not
  numbers, missing cells and labels that occur twice are outside the model.

  A cell is read as the exact number it denotes. \<^verbatim>\<open>pandas\<close> stores a column whose cells are all
  integers as \<^verbatim>\<open>int64\<close>, and there the \<^verbatim>\<open>+\<close> and the \<^verbatim>\<open>.sum()\<close> of the source wrap around at
  \<open>2 ^ 63\<close>; a column with a decimal point in some row is \<^verbatim>\<open>float64\<close>. In both cases the exact
  sum is the result of the code as long as it lies in the range of \<^verbatim>\<open>int64\<close>. The model adds
  exactly, and the statements on the total DC power and on the column sum are made for sums
  in that range (\<open>int64_range\<close>).
\<close>

record dataframe =
  columns :: "string list"
  rows :: "real list list"

datatype csv_file = NoSuchFile | EmptyFile | Unparsable | Table dataframe

fun read_csv :: "csv_file \<Rightarrow> py_error + dataframe" where
  "read_csv NoSuchFile = Inl FileNotFoundError"
| "read_csv EmptyFile = Inl EmptyDataError"
| "read_csv Unparsable = Inl ParserError"
| "read_csv (Table df) = Inr df"

text \<open>
  \<^verbatim>\<open>str.strip()\<close> with no argument removes the leading and the trailing characters for which
  \<^verbatim>\<open>str.isspace\<close> holds. A label is the byte string of its UTF-8 encoding, so the whitespace
  characters are listed by their encodings: U+0009 to U+000D, U+001C to U+0020, U+0085,
  U+00A0, U+1680, U+2000 to U+200A, U+2028, U+2029, U+202F, U+205F and U+3000.
\<close>

definition whitespace :: "string list" where
  "whitespace =
     [[CHR 0x09], [CHR 0x0A], [CHR 0x0B], [CHR 0x0C], [CHR 0x0D],
      [CHR 0x1C], [CHR 0x1D], [CHR 0x1E], [CHR 0x1F], [CHR 0x20],
      [CHR 0xC2, CHR 0x85], [CHR 0xC2, CHR 0xA0],
      [CHR 0xE1, CHR 0x9A, CHR 0x80],
      [CHR 0xE2, CHR 0x80, CHR 0x80], [CHR 0xE2, CHR 0x80, CHR 0x81],
      [CHR 0xE2, CHR 0x80, CHR 0x82], [CHR 0xE2, CHR 0x80, CHR 0x83],
      [CHR 0xE2, CHR 0x80, CHR 0x84], [CHR 0xE2, CHR 0x80, CHR 0x85],
      [CHR 0xE2, CHR 0x80, CHR 0x86], [CHR 0xE2, CHR 0x80, CHR 0x87],
      [CHR 0xE2, CHR 0x80, CHR 0x88], [CHR 0xE2, CHR 0x80, CHR 0x89],
      [CHR 0xE2, CHR 0x80, CHR 0x8A],
      [CHR 0xE2, CHR 0x80, CHR 0xA8], [CHR 0xE2, CHR 0x80, CHR 0xA9],
      [CHR 0xE2, CHR 0x80, CHR 0xAF],
      [CHR 0xE2, CHR 0x81, CHR 0x9F],
      [CHR 0xE3, CHR 0x80, CHR 0x80]]"

text \<open>
  Removing, from the front, every byte sequence of the list \<open>ws\<close>; the trailing whitespace
  is removed from the front of the reversed string, with the encodings reversed.
\<close>

fun strip_leading :: "string list \<Rightarrow> string \<Rightarrow> string" where
  "strip_leading ws [] = []"
| "strip_leading ws (c # cs) =
     (case find (\<lambda>w. w \<noteq> [] \<and> take (length w) (c # cs) = w) ws of
        None \<Rightarrow> c # cs
      | Some w \<Rightarrow> strip_leading ws (drop (length w - 1) cs))"

definition strip :: "string \<Rightarrow> string" where
  "strip s = rev (strip_leading (map rev whitespace) (rev (strip_leading whitespace s)))"

text \<open>\<^verbatim>\<open>df.empty\<close>: an axis of length 0.\<close>

definition empty_df :: "dataframe \<Rightarrow> bool" where
  "empty_df df = (columns df = [] \<or> rows df = [])"

text \<open>
  \<^verbatim>\<open>df.iloc[-1]\<close>, a series indexed by the column labels, and \<^verbatim>\<open>latest[label]\<close>, which raises
  \<^verbatim>\<open>KeyError\<close> for a label that is not a column. \<^verbatim>\<open>df[label].sum()\<close> adds the cells of one
  column over all rows.
\<close>

type_synonym series = "(string \<times> real) list"

definition iloc_last :: "dataframe \<Rightarrow> py_error + series" where
  "iloc_last df =
     (case rev (rows df) of
        [] \<Rightarrow> Inl IndexError
      | r # earlier \<Rightarrow> Inr (zip (columns df) r))"

definition getitem :: "series \<Rightarrow> string \<Rightarrow> py_error + real" where
  "getitem latest label =
     (case map_of latest label of
        None \<Rightarrow> Inl (KeyError label)
      | Some v \<Rightarrow> Inr v)"

definition cell :: "string list \<Rightarrow> string \<Rightarrow> real list \<Rightarrow> real" where
  "cell cols label r = (case map_of (zip cols r) label of None \<Rightarrow> 0 | Some v \<Rightarrow> v)"

definition column_sum :: "dataframe \<Rightarrow> string \<Rightarrow> py_error + real" where
  "column_sum df label =
     (if label \<in> set (columns df)
      then Inr (sum_list (map (cell (columns df) label) (rows df)))
      else Inl (KeyError label))"

definition int64_range :: "real \<Rightarrow> bool" where
  "int64_range x = (- (2 ^ 63) \<le> x \<and> x \<le> 2 ^ 63 - 1)"

subsection \<open>The batch exporter (prometheus_exporter.py)\<close>

definition pv_power_dc1 :: string where "pv_power_dc1 = ''pv_power_dc1_watts''"
definition pv_power_dc2 :: string where "pv_power_dc2 = ''pv_power_dc2_watts''"
definition pv_power_ac :: string where "pv_power_ac = ''pv_power_ac_watts''"
definition pv_energy_today :: string where "pv_energy_today = ''pv_energy_today_kwh''"
definition pv_energy_total :: string where "pv_energy_total = ''pv_energy_total_kwh''"
definition pv_module_temp :: string where "pv_module_temp = ''pv_module_temperature_celsius''"
definition pv_ambient_temp :: string where "pv_ambient_temp = ''pv_ambient_temperature_celsius''"
definition pv_voltage_dc1 :: string where "pv_voltage_dc1 = ''pv_voltage_dc1_volts''"
definition pv_voltage_dc2 :: string where "pv_voltage_dc2 = ''pv_voltage_dc2_volts''"
definition pv_total_dc_power :: string where "pv_total_dc_power = ''pv_total_dc_power_watts''"
definition pv_efficiency :: string where "pv_efficiency = ''pv_efficiency_percent''"
definition pv_exported_energy :: string where "pv_exported_energy = ''pv_exported_energy_kwh''"
definition pv_self_use_energy :: string where "pv_self_use_energy = ''pv_self_use_energy_kwh''"

text \<open>The thirteen module-level \<^verbatim>\<open>Gauge(...)\<close> calls, lines 12 to 26, in order.\<close>

definition batch_gauges :: "string list" where
  "batch_gauges =
     [pv_power_dc1, pv_power_dc2, pv_power_ac, pv_energy_today, pv_energy_total,
      pv_module_temp, pv_ambient_temp, pv_voltage_dc1, pv_voltage_dc2,
      pv_total_dc_power, pv_efficiency, pv_exported_energy, pv_self_use_energy]"

definition batch_startup :: "py_error + registry" where
  "batch_startup = register_gauges batch_gauges Map.empty"

text \<open>
  The column labels of the inverter export. The degree sign of the two temperature labels
  is the two bytes C2 B0 of its UTF-8 encoding.
\<close>

definition col_dc1 :: string where "col_dc1 = ''Leistung_DC_1 (W)''"
definition col_dc2 :: string where "col_dc2 = ''Leistung_DC_2 (W)''"
definition col_ac :: string where "col_ac = ''Leistung_AC (W)''"
definition col_today :: string where "col_today = ''Energie_Heute (kWh)''"
definition col_total :: string where "col_total = ''Energie_Gesamt (kWh)''"
definition col_module_temp :: string where
  "col_module_temp = ''Modultemperatur ('' @ [CHR 0xC2, CHR 0xB0] @ ''C)''"
definition col_ambient_temp :: string where
  "col_ambient_temp = ''Umgebungstemperatur ('' @ [CHR 0xC2, CHR 0xB0] @ ''C)''"
definition col_voltage1 :: string where "col_voltage1 = ''Spannung_DC_1 (V)''"
definition col_voltage2 :: string where "col_voltage2 = ''Spannung_DC_2 (V)''"

text \<open>\<^verbatim>\<open>load_pv_data\<close>, lines 28 to 36: any exception of the read is printed and gives \<^verbatim>\<open>None\<close>.\<close>

definition load_pv_data :: "csv_file \<Rightarrow> dataframe option" where
  "load_pv_data file =
     (case read_csv file of
        Inl e \<Rightarrow> None
      | Inr df \<Rightarrow> Some (df\<lparr>columns := map strip (columns df)\<rparr>))"

text \<open>
  \<^verbatim>\<open>update_metrics\<close>, lines 38 to 76, in the two parts its comments name: the statements
  under "Update basic metrics" (lines 49 to 57) and those under "Calculate and update
  derived metrics" (lines 60 to 73). The \<^verbatim>\<open>if total_dc > 0\<close> statement with its two
  \<^verbatim>\<open>pv_efficiency.set\<close> calls is one statement of the block, whose expression is the
  conditional. The closing \<^verbatim>\<open>print\<close> reads two labels that were read before and cannot raise.
\<close>

definition basic_metrics :: "series \<Rightarrow> stmt list" where
  "basic_metrics latest =
     [(pv_power_dc1, getitem latest col_dc1),
      (pv_power_dc2, getitem latest col_dc2),
      (pv_power_ac, getitem latest col_ac),
      (pv_energy_today, getitem latest col_today),
      (pv_energy_total, getitem latest col_total),
      (pv_module_temp, getitem latest col_module_temp),
      (pv_ambient_temp, getitem latest col_ambient_temp),
      (pv_voltage_dc1, getitem latest col_voltage1),
      (pv_voltage_dc2, getitem latest col_voltage2)]"

definition derived_metrics :: "dataframe \<Rightarrow> series \<Rightarrow> stmt list" where
  "derived_metrics df latest =
     (let total_dc =
            and_then (getitem latest col_dc1) (\<lambda>a.
            and_then (getitem latest col_dc2) (\<lambda>b. Inr (a + b)));
          efficiency =
            and_then total_dc (\<lambda>t.
              if t > 0
              then and_then (getitem latest col_ac) (\<lambda>ac. Inr ((ac / t) * 100))
              else Inr 0);
          total_energy = column_sum df col_today
      in [(pv_total_dc_power, total_dc),
          (pv_efficiency, efficiency),
          (pv_exported_energy, and_then total_energy (\<lambda>t. Inr (t * 0.40))),
          (pv_self_use_energy, and_then total_energy (\<lambda>t. Inr (t * 0.60)))])"

definition update_metrics :: "csv_file \<Rightarrow> registry \<Rightarrow> outcome" where
  "update_metrics file reg =
     (case load_pv_data file of
        None \<Rightarrow> skipped reg
      | Some df \<Rightarrow>
          if empty_df df then skipped reg
          else
            (case iloc_last df of
               Inl e \<Rightarrow> \<lparr>raised = Some e, touched = [], gauges = reg\<rparr>
             | Inr latest \<Rightarrow> exec (basic_metrics latest @ derived_metrics df latest) [] reg))"

text \<open>
  Tables for concrete runs: the nine numeric columns of the export in the order above, and
  the registry with every gauge of a list at its initial value 0.
\<close>

definition csv_header :: "string list" where
  "csv_header =
     [col_dc1, col_dc2, col_ac, col_today, col_total, col_module_temp, col_ambient_temp,
      col_voltage1, col_voltage2]"

text \<open>A last row that has a cell under each of the nine labels.\<close>

definition complete :: "series \<Rightarrow> bool" where
  "complete latest = (\<forall>label \<in> set csv_header. map_of latest label \<noteq> None)"

text \<open>A last row whose two DC cells, where it has both, add up within the \<^verbatim>\<open>int64\<close> range.\<close>

definition dc_sum_in_range :: "series \<Rightarrow> bool" where
  "dc_sum_in_range latest =
     (case map_of latest col_dc1 of
        None \<Rightarrow> True
      | Some a \<Rightarrow>
          (case map_of latest col_dc2 of
             None \<Rightarrow> True
           | Some b \<Rightarrow> int64_range (a + b)))"

definition pv_table :: "real list list \<Rightarrow> csv_file" where
  "pv_table rs = Table \<lparr>columns = csv_header, rows = rs\<rparr>"

definition sample_row :: "real list" where
  "sample_row = [600, 400, 900, 5, 1000, 40, 20, 300, 310]"

definition earlier_row :: "real list" where
  "earlier_row = [0, 0, 0, 10, 990, 30, 15, 0, 0]"

definition partial_table :: csv_file where
  "partial_table = Table \<lparr>columns = [col_dc1], rows = [[100]]\<rparr>"

definition zeroed :: "string list \<Rightarrow> registry" where
  "zeroed names = fold (\<lambda>g reg. reg(g \<mapsto> 0)) names Map.empty"

text \<open>
  The main loop, lines 86 to 95, over the events of a finite stretch of its run: a cycle
  with the file as it is then, or the interrupt, taken to arrive between two cycles (during
  the sleep). An exception leaving \<^verbatim>\<open>update_metrics\<close> is printed and the loop sleeps and goes
  on; only \<^verbatim>\<open>KeyboardInterrupt\<close> breaks the loop. \<open>Running\<close> is the process still in its loop
  at the end of the stretch, \<open>Exited\<close> the process after the \<^verbatim>\<open>break\<close>.
\<close>

datatype event = Cycle csv_file | KeyboardInterrupt

datatype process = Running registry | Exited registry

fun main_loop :: "event list \<Rightarrow> registry \<Rightarrow> process" where
  "main_loop [] reg = Running reg"
| "main_loop (KeyboardInterrupt # es) reg = Exited reg"
| "main_loop (Cycle file # es) reg = main_loop es (gauges (update_metrics file reg))"

definition registry_of :: "process \<Rightarrow> registry" where
  "registry_of p = (case p of Running reg \<Rightarrow> reg | Exited reg \<Rightarrow> reg)"

subsection \<open>The dashboard's energy split (dashboard.py)\<close>

text \<open>
  \<^verbatim>\<open>main\<close>, lines 113 to 115: \<^verbatim>\<open>total_exported\<close> and \<^verbatim>\<open>total_self_use\<close> as functions of
  \<^verbatim>\<open>total_yield\<close>, the sum of the yield column.
\<close>

definition total_exported :: "real \<Rightarrow> real" where
  "total_exported total_yield = total_yield * 0.40"

definition total_self_use :: "real \<Rightarrow> real" where
  "total_self_use total_yield = total_yield * 0.60"

subsection \<open>The live exporter (exporter_live.py)\<close>

definition pv_estimated_power_watts :: string where
  "pv_estimated_power_watts = ''pv_estimated_power_watts''"
definition pv_cloud_cover_percent :: string where
  "pv_cloud_cover_percent = ''pv_cloud_cover_percent''"
definition pv_temperature_celsius :: string where
  "pv_temperature_celsius = ''pv_temperature_celsius''"
definition pv_humidity_percent :: string where
  "pv_humidity_percent = ''pv_humidity_percent''"
definition pv_wind_speed_mps :: string where
  "pv_wind_speed_mps = ''pv_wind_speed_mps''"
definition pv_uv_index :: string where
  "pv_uv_index = ''pv_uv_index''"
definition pv_efficiency_percent :: string where
  "pv_efficiency_percent = ''pv_efficiency_percent''"

definition live_gauges :: "string list" where
  "live_gauges =
     [pv_estimated_power_watts, pv_cloud_cover_percent, pv_temperature_celsius,
      pv_humidity_percent, pv_wind_speed_mps, pv_uv_index, pv_efficiency_percent]"

definition live_startup :: "py_error + registry" where
  "live_startup = register_gauges live_gauges Map.empty"

text \<open>
  The weather response after \<^verbatim>\<open>response.json()\<close>, reduced to the four numbers the exporter
  reads with \<^verbatim>\<open>data.get(...).get(..., 0)\<close>; an absent key is \<open>None\<close>. The request itself (with
  \<^verbatim>\<open>raise_for_status\<close> and the JSON decoding) either raises or gives such a response.
\<close>

record weather =
  clouds_all :: "real option"
  main_temp :: "real option"
  main_humidity :: "real option"
  wind_speed :: "real option"

definition get_or :: "real option \<Rightarrow> real \<Rightarrow> real" where
  "get_or field dflt = (case field of None \<Rightarrow> dflt | Some v \<Rightarrow> v)"

text \<open>
  \<^verbatim>\<open>fetch_and_update_metrics\<close>, lines 46 to 78; the second argument is
  \<^verbatim>\<open>datetime.now().hour\<close>. The \<^verbatim>\<open>except\<close> clause prints and returns.
\<close>

definition fetch_and_update_metrics :: "py_error + weather \<Rightarrow> int \<Rightarrow> registry \<Rightarrow> outcome" where
  "fetch_and_update_metrics response current_hour reg =
     (case response of
        Inl e \<Rightarrow> skipped reg
      | Inr data \<Rightarrow>
          let cloud_cover = get_or (clouds_all data) 0;
              temp = get_or (main_temp data) 0;
              humidity = get_or (main_humidity data) 0;
              wind = get_or (wind_speed data) 0;
              uv_index = 5;
              estimated_power =
                calculate_estimated_solar_power_exporter cloud_cover uv_index current_hour;
              efficiency = (100 - cloud_cover) * 0.8
          in exec
               [(pv_estimated_power_watts, Inr estimated_power),
                (pv_cloud_cover_percent, Inr cloud_cover),
                (pv_temperature_celsius, Inr temp),
                (pv_humidity_percent, Inr humidity),
                (pv_wind_speed_mps, Inr wind),
                (pv_uv_index, Inr uv_index),
                (pv_efficiency_percent, Inr efficiency)]
               [] reg)"

text \<open>The poll loop, lines 92 to 94, over the responses and hours of a finite stretch of its run.\<close>

fun poll_loop :: "((py_error + weather) \<times> int) list \<Rightarrow> registry \<Rightarrow> registry" where
  "poll_loop [] reg = reg"
| "poll_loop ((response, current_hour) # rest) reg =
     poll_loop rest (gauges (fetch_and_update_metrics response current_hour reg))"

section \<open>Properties of the estimated power\<close>

lemma time_factor_nonneg: "0 \<le> time_factor h"
  by (simp add: time_factor_def)

lemma time_factor_le_one: "time_factor h \<le> 1"
  by (simp add: time_factor_def)

lemma exporter_unfold:
  "calculate_estimated_solar_power_exporter c u h =
     max 0 (5000 * ((100 - c) / 100) * min (u / 11) 1 * time_factor (real_of_int h))"
  by (simp add: calculate_estimated_solar_power_exporter_def Let_def)

lemma dashboard_unfold:
  "calculate_estimated_solar_power_dashboard c u t temp =
     max 0 (5 * ((100 - c) / 100) * min (u / 10) 1
            * time_factor (real (hour t) + real (minute t) / 60)
            * (1 - max 0 (temp - 25) * 0.005))"
  by (simp add: calculate_estimated_solar_power_dashboard_def Let_def)

text \<open>
  The shape both functions share: a non-negative scale, the cloud factor, the clamped UV
  factor and a last factor \<open>k\<close> of either sign (time factor, times the temperature derate
  in the dashboard variant).
\<close>

lemma clamped_product_antimono_cloud:
  fixes c1 c2 uf k :: real
  assumes "c1 \<le> c2" "c2 \<le> 100" "0 \<le> uf" "0 \<le> p"
  shows "max 0 (p * ((100 - c2) / 100) * uf * k) \<le> max 0 (p * ((100 - c1) / 100) * uf * k)"
proof (cases "0 \<le> k")
  case True
  have "(100 - c2) / 100 \<le> (100 - c1) / 100"
    using assms by simp
  then have "p * ((100 - c2) / 100) \<le> p * ((100 - c1) / 100)"
    using assms by (simp add: mult_left_mono)
  then have "p * ((100 - c2) / 100) * uf \<le> p * ((100 - c1) / 100) * uf"
    using assms by (simp add: mult_right_mono)
  then have "p * ((100 - c2) / 100) * uf * k \<le> p * ((100 - c1) / 100) * uf * k"
    using True by (simp add: mult_right_mono)
  then show ?thesis by simp
next
  case False
  have "0 \<le> p * ((100 - c2) / 100) * uf"
    using assms by simp
  then have "p * ((100 - c2) / 100) * uf * k \<le> 0"
    using False by (simp add: mult_nonneg_nonpos)
  then show ?thesis by simp
qed

lemma clamped_product_mono_uv:
  fixes c uf1 uf2 k :: real
  assumes "c \<le> 100" "uf1 \<le> uf2" "0 \<le> uf1" "0 \<le> p"
  shows "max 0 (p * ((100 - c) / 100) * uf1 * k) \<le> max 0 (p * ((100 - c) / 100) * uf2 * k)"
proof (cases "0 \<le> k")
  case True
  have "0 \<le> p * ((100 - c) / 100)"
    using assms by simp
  then have "p * ((100 - c) / 100) * uf1 \<le> p * ((100 - c) / 100) * uf2"
    using assms by (simp add: mult_left_mono)
  then have "p * ((100 - c) / 100) * uf1 * k \<le> p * ((100 - c) / 100) * uf2 * k"
    using True by (simp add: mult_right_mono)
  then show ?thesis by simp
next
  case False
  have "0 \<le> p * ((100 - c) / 100) * uf1"
    using assms by simp
  then have "p * ((100 - c) / 100) * uf1 * k \<le> 0"
    using False by (simp add: mult_nonneg_nonpos)
  then show ?thesis by simp
qed

lemma clamped_product_le:
  fixes c uf k :: real
  assumes "0 \<le> c" "c \<le> 100" "0 \<le> uf" "uf \<le> 1" "k \<le> 1" "0 \<le> p"
  shows "max 0 (p * ((100 - c) / 100) * uf * k) \<le> p"
proof -
  have cf: "0 \<le> (100 - c) / 100" "(100 - c) / 100 \<le> 1"
    using assms by simp_all
  have "p * ((100 - c) / 100) \<le> p * 1"
    using cf assms by (intro mult_left_mono) simp_all
  then have a: "p * ((100 - c) / 100) \<le> p" by simp
  have a0: "0 \<le> p * ((100 - c) / 100)"
    using cf assms by simp
  have "p * ((100 - c) / 100) * uf \<le> p * ((100 - c) / 100) * 1"
    using a0 assms by (intro mult_left_mono) simp_all
  then have b: "p * ((100 - c) / 100) * uf \<le> p" using a by simp
  have b0: "0 \<le> p * ((100 - c) / 100) * uf"
    using a0 assms by simp
  have "p * ((100 - c) / 100) * uf * k \<le> p * ((100 - c) / 100) * uf * 1"
    using b0 assms by (intro mult_left_mono) simp_all
  then have "p * ((100 - c) / 100) * uf * k \<le> p" using b by simp
  then show ?thesis using assms by simp
qed

lemma uv_factor_bounds:
  fixes u d :: real
  assumes "0 \<le> u" "0 < d"
  shows "0 \<le> min (u / d) 1" "min (u / d) 1 \<le> 1"
  using assms by simp_all

lemma uv_factor_mono:
  fixes u1 u2 d :: real
  assumes "u1 \<le> u2" "0 < d"
  shows "min (u1 / d) 1 \<le> min (u2 / d) 1"
  using assms by (simp add: divide_right_mono min.coboundedI1)

lemma derate_le_one: "1 - max 0 (temp - 25) * 0.005 \<le> (1::real)"
  by simp

lemma time_derate_le_one:
  "time_factor x * (1 - max 0 (temp - 25) * 0.005) \<le> 1"
proof (cases "0 \<le> 1 - max 0 (temp - 25) * 0.005")
  case True
  have "time_factor x * (1 - max 0 (temp - 25) * 0.005) \<le> 1 * 1"
    using True time_factor_nonneg [of x] time_factor_le_one [of x] derate_le_one [of temp]
    by (intro mult_mono) simp_all
  then show ?thesis by simp
next
  case False
  then have "time_factor x * (1 - max 0 (temp - 25) * 0.005) \<le> 0"
    using time_factor_nonneg [of x] by (simp add: mult_nonneg_nonpos)
  then show ?thesis by simp
qed

lemma dashboard_assoc:
  "calculate_estimated_solar_power_dashboard c u t temp =
     max 0 (5 * ((100 - c) / 100) * min (u / 10) 1
            * (time_factor (real (hour t) + real (minute t) / 60)
               * (1 - max 0 (temp - 25) * 0.005)))"
  by (simp add: dashboard_unfold mult.assoc)

lemma time_factor_13: "time_factor 13 = 1"
  by (simp add: time_factor_def)

text \<open>
  C3. With the other arguments fixed, the estimated power of both variants does not increase
  when the cloud cover grows within 0 to 100, does not decrease when a non-negative UV index
  grows, and is never negative.
\<close>

theorem estimated_power_monotone:
  "(0 \<le> c1 \<and> c1 \<le> c2 \<and> c2 \<le> 100 \<and> 0 \<le> u \<longrightarrow>
      calculate_estimated_solar_power_exporter c2 u h
        \<le> calculate_estimated_solar_power_exporter c1 u h
      \<and> calculate_estimated_solar_power_dashboard c2 u t temp
        \<le> calculate_estimated_solar_power_dashboard c1 u t temp)
   \<and> (0 \<le> c \<and> c \<le> 100 \<and> 0 \<le> u1 \<and> u1 \<le> u2 \<longrightarrow>
      calculate_estimated_solar_power_exporter c u1 h
        \<le> calculate_estimated_solar_power_exporter c u2 h
      \<and> calculate_estimated_solar_power_dashboard c u1 t temp
        \<le> calculate_estimated_solar_power_dashboard c u2 t temp)
   \<and> 0 \<le> calculate_estimated_solar_power_exporter c u h
   \<and> 0 \<le> calculate_estimated_solar_power_dashboard c u t temp"
proof (intro conjI impI)
  assume a: "0 \<le> c1 \<and> c1 \<le> c2 \<and> c2 \<le> 100 \<and> 0 \<le> u"
  then have uf: "0 \<le> min (u / 11) 1" "0 \<le> min (u / 10) 1"
    by simp_all
  show "calculate_estimated_solar_power_exporter c2 u h
          \<le> calculate_estimated_solar_power_exporter c1 u h"
    unfolding exporter_unfold
    using a uf(1) by (intro clamped_product_antimono_cloud) simp_all
  show "calculate_estimated_solar_power_dashboard c2 u t temp
          \<le> calculate_estimated_solar_power_dashboard c1 u t temp"
    unfolding dashboard_assoc
    using a uf(2) by (intro clamped_product_antimono_cloud) simp_all
next
  assume a: "0 \<le> c \<and> c \<le> 100 \<and> 0 \<le> u1 \<and> u1 \<le> u2"
  then have uf: "0 \<le> min (u1 / 11) 1" "0 \<le> min (u1 / 10) 1"
    by simp_all
  from a have le: "u1 \<le> u2"
    by simp
  have m: "min (u1 / 11) 1 \<le> min (u2 / 11) 1" "min (u1 / 10) 1 \<le> min (u2 / 10) 1"
    by (rule uv_factor_mono [OF le], simp)+
  show "calculate_estimated_solar_power_exporter c u1 h
          \<le> calculate_estimated_solar_power_exporter c u2 h"
    unfolding exporter_unfold
    using a uf(1) m(1) by (intro clamped_product_mono_uv) simp_all
  show "calculate_estimated_solar_power_dashboard c u1 t temp
          \<le> calculate_estimated_solar_power_dashboard c u2 t temp"
    unfolding dashboard_assoc
    using a uf(2) m(2) by (intro clamped_product_mono_uv) simp_all
next
  show "0 \<le> calculate_estimated_solar_power_exporter c u h"
    by (simp add: exporter_unfold)
  show "0 \<le> calculate_estimated_solar_power_dashboard c u t temp"
    by (simp add: dashboard_unfold)
qed

theorem estimated_power_monotone_witness:
  "(0::real) \<le> 20 \<and> (20::real) \<le> 50 \<and> (50::real) \<le> 100 \<and> (0::real) \<le> 5
   \<and> (5::real) \<le> 8
   \<and> calculate_estimated_solar_power_exporter 50 5 13
        \<le> calculate_estimated_solar_power_exporter 20 5 13
   \<and> calculate_estimated_solar_power_dashboard 50 5 \<lparr>hour = 13, minute = 0\<rparr> 30
        \<le> calculate_estimated_solar_power_dashboard 20 5 \<lparr>hour = 13, minute = 0\<rparr> 30
   \<and> calculate_estimated_solar_power_exporter 50 5 13
        \<le> calculate_estimated_solar_power_exporter 50 8 13
   \<and> calculate_estimated_solar_power_dashboard 50 5 \<lparr>hour = 13, minute = 0\<rparr> 30
        \<le> calculate_estimated_solar_power_dashboard 50 8 \<lparr>hour = 13, minute = 0\<rparr> 30
   \<and> 0 \<le> calculate_estimated_solar_power_exporter 50 5 13
   \<and> 0 \<le> calculate_estimated_solar_power_dashboard 50 5 \<lparr>hour = 13, minute = 0\<rparr> 30"
  using estimated_power_monotone
    [of 20 50 5 13 "\<lparr>hour = 13, minute = 0\<rparr>" 30 50 5 8]
  by simp

lemma clamped_time_le:
  fixes k tf d :: real
  assumes "0 \<le> k" and "0 \<le> tf" and "tf \<le> 1"
  shows "max 0 (k * tf * d) \<le> max 0 (k * 1 * d)"
proof (cases "0 \<le> d")
  case True
  have "k * tf \<le> k * 1"
    using assms by (intro mult_left_mono) simp_all
  then have "k * tf * d \<le> k * 1 * d"
    using True by (intro mult_right_mono) simp_all
  then show ?thesis by simp
next
  case False
  have "0 \<le> k * tf"
    using assms by simp
  then have "k * tf * d \<le> 0"
    using False by (simp add: mult_nonneg_nonpos)
  then show ?thesis by simp
qed

lemma exporter_le_13:
  assumes "c \<le> 100" and "0 \<le> u"
  shows "calculate_estimated_solar_power_exporter c u h
         \<le> calculate_estimated_solar_power_exporter c u 13"
proof -
  have k: "0 \<le> 5000 * ((100 - c) / 100) * min (u / 11) 1"
    using assms by simp
  have "max 0 (5000 * ((100 - c) / 100) * min (u / 11) 1 * time_factor (real_of_int h) * 1)
        \<le> max 0 (5000 * ((100 - c) / 100) * min (u / 11) 1 * 1 * 1)"
    using k time_factor_nonneg [of "real_of_int h"] time_factor_le_one [of "real_of_int h"]
    by (rule clamped_time_le)
  then show ?thesis
    by (simp add: exporter_unfold time_factor_13)
qed

lemma dashboard_le_13:
  assumes "c \<le> 100" and "0 \<le> u"
  shows "calculate_estimated_solar_power_dashboard c u t temp
         \<le> calculate_estimated_solar_power_dashboard c u \<lparr>hour = 13, minute = 0\<rparr> temp"
proof -
  let ?x = "real (hour t) + real (minute t) / 60"
  have k: "0 \<le> 5 * ((100 - c) / 100) * min (u / 10) 1"
    using assms by simp
  have "max 0 (5 * ((100 - c) / 100) * min (u / 10) 1 * time_factor ?x
                 * (1 - max 0 (temp - 25) * 0.005))
        \<le> max 0 (5 * ((100 - c) / 100) * min (u / 10) 1 * 1 * (1 - max 0 (temp - 25) * 0.005))"
    using k time_factor_nonneg [of ?x] time_factor_le_one [of ?x]
    by (rule clamped_time_le)
  then show ?thesis
    by (simp add: dashboard_unfold time_factor_13)
qed

text \<open>
  C4. Outside the hours 6 to 20 the estimated power of both variants is 0 whatever the cloud
  cover, UV index and temperature are (the dashboard variant reads the hour as
  \<open>hour + minute / 60\<close>). Inside, the power is the nameplate maximum times the cloud factor,
  the UV factor and the time factor \<open>\<bar>sin ((hour - 6) * pi / 14)\<bar>\<close> (times the temperature
  derate in the dashboard variant), clamped at 0. The time factor reaches its largest value,
  1, at hour 13, and for a cloud cover of at most 100 and a non-negative UV index the
  estimated power at any time is at most the estimated power at 13:00.
\<close>

theorem estimated_power_zero_outside_daylight:
  "(h < 6 \<or> 20 < h \<longrightarrow> calculate_estimated_solar_power_exporter c u h = 0)
   \<and> (real (hour t) + real (minute t) / 60 < 6 \<or> 20 < real (hour t) + real (minute t) / 60
        \<longrightarrow> calculate_estimated_solar_power_dashboard c u t temp = 0)
   \<and> (6 \<le> h' \<and> h' \<le> 20 \<longrightarrow>
        calculate_estimated_solar_power_exporter c u h' =
          max 0 (5000 * ((100 - c) / 100) * min (u / 11) 1
                 * \<bar>sin ((real_of_int h' - 6) * pi / 14)\<bar>))
   \<and> (6 \<le> real (hour t') + real (minute t') / 60
        \<and> real (hour t') + real (minute t') / 60 \<le> 20 \<longrightarrow>
        calculate_estimated_solar_power_dashboard c u t' temp =
          max 0 (5 * ((100 - c) / 100) * min (u / 10) 1
                 * \<bar>sin ((real (hour t') + real (minute t') / 60 - 6) * pi / 14)\<bar>
                 * (1 - max 0 (temp - 25) * 0.005)))
   \<and> (c' \<le> 100 \<and> 0 \<le> u' \<longrightarrow>
        calculate_estimated_solar_power_exporter c' u' h''
          \<le> calculate_estimated_solar_power_exporter c' u' 13
        \<and> calculate_estimated_solar_power_dashboard c' u' t'' temp
          \<le> calculate_estimated_solar_power_dashboard c' u' \<lparr>hour = 13, minute = 0\<rparr> temp)
   \<and> (6 \<le> x \<and> x \<le> 20 \<longrightarrow> time_factor x = \<bar>sin ((x - 6) * pi / 14)\<bar>)
   \<and> time_factor 13 = 1
   \<and> time_factor y \<le> time_factor 13"
proof (intro conjI impI)
  assume "h < 6 \<or> 20 < h"
  then have "time_factor (real_of_int h) = 0"
    by (auto simp add: time_factor_def)
  then show "calculate_estimated_solar_power_exporter c u h = 0"
    by (simp add: exporter_unfold)
next
  assume "real (hour t) + real (minute t) / 60 < 6 \<or> 20 < real (hour t) + real (minute t) / 60"
  then have "time_factor (real (hour t) + real (minute t) / 60) = 0"
    by (auto simp add: time_factor_def)
  then show "calculate_estimated_solar_power_dashboard c u t temp = 0"
    by (simp add: dashboard_unfold)
next
  assume "6 \<le> h' \<and> h' \<le> 20"
  then have "time_factor (real_of_int h') = \<bar>sin ((real_of_int h' - 6) * pi / 14)\<bar>"
    by (simp add: time_factor_def)
  then show "calculate_estimated_solar_power_exporter c u h' =
          max 0 (5000 * ((100 - c) / 100) * min (u / 11) 1
                 * \<bar>sin ((real_of_int h' - 6) * pi / 14)\<bar>)"
    by (simp add: exporter_unfold)
next
  assume "6 \<le> real (hour t') + real (minute t') / 60
        \<and> real (hour t') + real (minute t') / 60 \<le> 20"
  then have "time_factor (real (hour t') + real (minute t') / 60)
               = \<bar>sin ((real (hour t') + real (minute t') / 60 - 6) * pi / 14)\<bar>"
    by (simp add: time_factor_def)
  then show "calculate_estimated_solar_power_dashboard c u t' temp =
          max 0 (5 * ((100 - c) / 100) * min (u / 10) 1
                 * \<bar>sin ((real (hour t') + real (minute t') / 60 - 6) * pi / 14)\<bar>
                 * (1 - max 0 (temp - 25) * 0.005))"
    by (simp add: dashboard_unfold)
next
  assume a: "c' \<le> 100 \<and> 0 \<le> u'"
  then show "calculate_estimated_solar_power_exporter c' u' h''
          \<le> calculate_estimated_solar_power_exporter c' u' 13"
    by (intro exporter_le_13) simp_all
  from a show "calculate_estimated_solar_power_dashboard c' u' t'' temp
          \<le> calculate_estimated_solar_power_dashboard c' u' \<lparr>hour = 13, minute = 0\<rparr> temp"
    by (intro dashboard_le_13) simp_all
next
  assume "6 \<le> x \<and> x \<le> 20"
  then show "time_factor x = \<bar>sin ((x - 6) * pi / 14)\<bar>"
    by (simp add: time_factor_def)
next
  show "time_factor 13 = 1"
    by (rule time_factor_13)
  show "time_factor y \<le> time_factor 13"
    by (simp add: time_factor_13 time_factor_le_one)
qed

theorem estimated_power_zero_outside_daylight_witness:
  "((5::int) < 6 \<or> (20::int) < 5)
   \<and> calculate_estimated_solar_power_exporter 0 11 5 = 0
   \<and> (20::real) < real 20 + real 30 / 60
   \<and> calculate_estimated_solar_power_dashboard 0 11 \<lparr>hour = 20, minute = 30\<rparr> 25 = 0
   \<and> (6::int) \<le> 13 \<and> (13::int) \<le> 20
   \<and> calculate_estimated_solar_power_exporter 0 11 13 = 5000
   \<and> (6::real) \<le> real 13 + real 0 / 60 \<and> real 13 + real 0 / 60 \<le> (20::real)
   \<and> calculate_estimated_solar_power_dashboard 0 11 \<lparr>hour = 13, minute = 0\<rparr> 25 = 5
   \<and> (50::real) \<le> 100 \<and> (0::real) \<le> 5
   \<and> calculate_estimated_solar_power_exporter 50 5 9
        \<le> calculate_estimated_solar_power_exporter 50 5 13
   \<and> calculate_estimated_solar_power_dashboard 50 5 \<lparr>hour = 9, minute = 20\<rparr> 25
        \<le> calculate_estimated_solar_power_dashboard 50 5 \<lparr>hour = 13, minute = 0\<rparr> 25
   \<and> (6::real) \<le> 12 \<and> (12::real) \<le> 20
   \<and> time_factor 12 = \<bar>sin ((12 - 6) * pi / 14)\<bar>
   \<and> time_factor 12 \<le> time_factor 13"
  using estimated_power_zero_outside_daylight
    [where h = 5 and c = 0 and u = 11 and t = "\<lparr>hour = 20, minute = 30\<rparr>" and temp = 25
       and h' = 13 and t' = "\<lparr>hour = 13, minute = 0\<rparr>" and c' = 50 and u' = 5
       and h'' = 9 and t'' = "\<lparr>hour = 9, minute = 20\<rparr>" and x = 12 and y = 12]
  by simp

text \<open>
  C7. The two implementations are different functions: the dashboard variant divides the UV
  index by 10 and multiplies by the temperature derate, the exporter variant divides by 11
  and has no derate. Scaled to the same unit (1 kW = 1000 W) they disagree at cloud cover 0,
  UV index 10, 13:00 and 25 degrees (the divisor), and at cloud cover 0, UV index 11, 13:00
  and 35 degrees (the derate).
\<close>

theorem estimated_power_variants_differ:
  "calculate_estimated_solar_power_dashboard c u t temp =
     max 0 (5 * ((100 - c) / 100) * min (u / 10) 1
            * time_factor (real (hour t) + real (minute t) / 60)
            * (1 - max 0 (temp - 25) * 0.005))
   \<and> calculate_estimated_solar_power_exporter c u h =
     max 0 (5000 * ((100 - c) / 100) * min (u / 11) 1 * time_factor (real_of_int h))
   \<and> 1000 * calculate_estimated_solar_power_dashboard 0 10 \<lparr>hour = 13, minute = 0\<rparr> default_temp
       \<noteq> calculate_estimated_solar_power_exporter 0 10 13
   \<and> 1000 * calculate_estimated_solar_power_dashboard 0 11 \<lparr>hour = 13, minute = 0\<rparr> 35
       \<noteq> calculate_estimated_solar_power_exporter 0 11 13
   \<and> (\<exists>c' u' h' temp'.
         1000 * calculate_estimated_solar_power_dashboard c' u' \<lparr>hour = nat h', minute = 0\<rparr> temp'
           \<noteq> calculate_estimated_solar_power_exporter c' u' h')"
proof -
  have d1: "calculate_estimated_solar_power_dashboard 0 10 \<lparr>hour = 13, minute = 0\<rparr> default_temp = 5"
    by (simp add: dashboard_unfold time_factor_13 default_temp_def)
  have e1: "calculate_estimated_solar_power_exporter 0 10 13 = 50000 / 11"
    by (simp add: exporter_unfold time_factor_13)
  have d2: "calculate_estimated_solar_power_dashboard 0 11 \<lparr>hour = 13, minute = 0\<rparr> 35 = 19 / 4"
    by (simp add: dashboard_unfold time_factor_13)
  have e2: "calculate_estimated_solar_power_exporter 0 11 13 = 5000"
    by (simp add: exporter_unfold time_factor_13)
  have ne1: "1000 * calculate_estimated_solar_power_dashboard 0 10 \<lparr>hour = 13, minute = 0\<rparr> default_temp
       \<noteq> calculate_estimated_solar_power_exporter 0 10 13"
    by (simp add: d1 e1)
  have ne2: "1000 * calculate_estimated_solar_power_dashboard 0 11 \<lparr>hour = 13, minute = 0\<rparr> 35
       \<noteq> calculate_estimated_solar_power_exporter 0 11 13"
    by (simp add: d2 e2)
  have "1000 * calculate_estimated_solar_power_dashboard 0 11 \<lparr>hour = nat 13, minute = 0\<rparr> 35
       \<noteq> calculate_estimated_solar_power_exporter 0 11 13"
    using ne2 by simp
  then have ex: "\<exists>c' u' h' temp'.
         1000 * calculate_estimated_solar_power_dashboard c' u' \<lparr>hour = nat h', minute = 0\<rparr> temp'
           \<noteq> calculate_estimated_solar_power_exporter c' u' h'"
    by blast
  show ?thesis
    using ne1 ne2 ex dashboard_unfold [of c u t temp] exporter_unfold [of c u h] by blast
qed

text \<open>
  C8. At cloud cover 0, UV index 11 and 13:00 (and the default 25 degrees in the dashboard
  variant) each variant returns its nameplate maximum: 5.0 kW and 5000 W.
\<close>

theorem estimated_power_nameplate_scenario:
  "calculate_estimated_solar_power_dashboard 0 11 \<lparr>hour = 13, minute = 0\<rparr> default_temp = 5.0
   \<and> calculate_estimated_solar_power_exporter 0 11 13 = 5000"
  by (simp add: dashboard_unfold exporter_unfold time_factor_13 default_temp_def)

text \<open>
  C10. For a cloud cover within 0 to 100 and a non-negative UV index, at any time and any
  temperature, the estimated power is at most the nameplate maximum: 5.0 kW in the dashboard
  variant, 5000 W in the exporter variant.
\<close>

theorem estimated_power_le_nameplate:
  assumes "0 \<le> c" and "c \<le> 100" and "0 \<le> u"
  shows "calculate_estimated_solar_power_dashboard c u t temp \<le> 5.0
         \<and> calculate_estimated_solar_power_exporter c u h \<le> 5000"
proof
  have "calculate_estimated_solar_power_dashboard c u t temp \<le> 5"
    unfolding dashboard_assoc
    using assms time_derate_le_one [of "real (hour t) + real (minute t) / 60" temp]
    by (intro clamped_product_le) simp_all
  then show "calculate_estimated_solar_power_dashboard c u t temp \<le> 5.0"
    by simp
  show "calculate_estimated_solar_power_exporter c u h \<le> 5000"
    unfolding exporter_unfold
    using assms time_factor_le_one [of "real_of_int h"]
    by (intro clamped_product_le) simp_all
qed

theorem estimated_power_le_nameplate_witness:
  "(0::real) \<le> 10 \<and> (10::real) \<le> 100 \<and> (0::real) \<le> 12
   \<and> calculate_estimated_solar_power_dashboard 10 12 \<lparr>hour = 9, minute = 20\<rparr> 40 \<le> 5.0
   \<and> calculate_estimated_solar_power_exporter 10 12 9 \<le> 5000"
  using estimated_power_le_nameplate [of 10 12 "\<lparr>hour = 9, minute = 20\<rparr>" 40 9]
  by simp

section \<open>The gauge registry and the statement block\<close>

lemma exec_dom: "fst ` set ss \<subseteq> dom reg \<Longrightarrow> dom (gauges (exec ss acc reg)) = dom reg"
proof (induction ss arbitrary: acc reg)
  case Nil
  then show ?case by simp
next
  case (Cons s ss)
  obtain g e where s: "s = (g, e)" by (cases s)
  show ?case
  proof (cases e)
    case (Inl err)
    then show ?thesis by (simp add: s)
  next
    case (Inr v)
    have g: "g \<in> dom reg" using Cons.prems by (simp add: s)
    then have d: "dom (gauge_set g v reg) = dom reg"
      by (auto simp add: gauge_set_def)
    have "fst ` set ss \<subseteq> dom (gauge_set g v reg)"
      using Cons.prems d by simp
    then have "dom (gauges (exec ss (acc @ [g]) (gauge_set g v reg))) = dom (gauge_set g v reg)"
      by (rule Cons.IH)
    then show ?thesis by (simp add: s Inr d)
  qed
qed

lemma exec_raised_None:
  "raised (exec ss acc reg) = None \<Longrightarrow>
     touched (exec ss acc reg) = acc @ map fst ss \<and> (\<forall>s \<in> set ss. \<exists>v. snd s = Inr v)"
proof (induction ss arbitrary: acc reg)
  case Nil
  then show ?case by simp
next
  case (Cons s ss)
  obtain g e where s: "s = (g, e)" by (cases s)
  show ?case
  proof (cases e)
    case (Inl err)
    then show ?thesis using Cons.prems by (simp add: s)
  next
    case (Inr v)
    then have "raised (exec ss (acc @ [g]) (gauge_set g v reg)) = None"
      using Cons.prems by (simp add: s)
    from Cons.IH [OF this] show ?thesis by (simp add: s Inr)
  qed
qed

lemma exec_other: "g \<notin> fst ` set ss \<Longrightarrow> gauges (exec ss acc reg) g = reg g"
proof (induction ss arbitrary: acc reg)
  case Nil
  then show ?case by simp
next
  case (Cons s ss)
  obtain g' e where s: "s = (g', e)" by (cases s)
  show ?case
  proof (cases e)
    case (Inl err)
    then show ?thesis by (simp add: s)
  next
    case (Inr v)
    have ng: "g \<notin> fst ` set ss" and ne: "g \<noteq> g'"
      using Cons.prems by (auto simp add: s)
    have ih: "gauges (exec ss (acc @ [g']) (gauge_set g' v reg)) g = gauge_set g' v reg g"
      using ng by (rule Cons.IH)
    have "gauge_set g' v reg g = reg g"
      using ne by (simp add: gauge_set_def)
    then show ?thesis
      by (simp add: s Inr ih)
  qed
qed

lemma exec_value:
  "raised (exec ss acc reg) = None \<Longrightarrow> distinct (map fst ss) \<Longrightarrow> (g, Inr v) \<in> set ss \<Longrightarrow>
     gauges (exec ss acc reg) g = Some v"
proof (induction ss arbitrary: acc reg)
  case Nil
  then show ?case by simp
next
  case (Cons s ss)
  obtain g' e where s: "s = (g', e)" by (cases s)
  show ?case
  proof (cases e)
    case (Inl err)
    then show ?thesis using Cons.prems by (simp add: s)
  next
    case (Inr v')
    have r: "raised (exec ss (acc @ [g']) (gauge_set g' v' reg)) = None"
      using Cons.prems by (simp add: s Inr)
    have d: "distinct (map fst ss)" "g' \<notin> fst ` set ss" using Cons.prems by (simp_all add: s)
    show ?thesis
    proof (cases "(g, Inr v) \<in> set ss")
      case True
      from Cons.IH [OF r d(1) True] show ?thesis by (simp add: s Inr)
    next
      case False
      then have eq: "g = g'" "v = v'" using Cons.prems(3) by (simp_all add: s Inr)
      have "gauges (exec ss (acc @ [g']) (gauge_set g' v' reg)) g' = gauge_set g' v' reg g'"
        using d(2) by (rule exec_other)
      then show ?thesis by (simp add: s Inr eq gauge_set_def)
    qed
  qed
qed

lemma exec_append_agree:
  "g \<notin> fst ` set t1 \<Longrightarrow> g \<notin> fst ` set t2 \<Longrightarrow>
     gauges (exec (ss @ t1) acc reg) g = gauges (exec (ss @ t2) acc reg) g"
proof (induction ss arbitrary: acc reg)
  case Nil
  then show ?case by (simp add: exec_other)
next
  case (Cons s ss)
  obtain g' e where s: "s = (g', e)" by (cases s)
  show ?case
  proof (cases e)
    case (Inl err)
    then show ?thesis by (simp add: s)
  next
    case (Inr v)
    then show ?thesis using Cons.IH [OF Cons.prems] by (simp add: s)
  qed
qed

lemma register_gauges_dom:
  "register_gauges ns reg = Inr reg' \<Longrightarrow> dom reg' = dom reg \<union> set ns"
proof (induction ns arbitrary: reg)
  case Nil
  then show ?case by simp
next
  case (Cons n ns)
  then show ?case
    by (auto simp add: Gauge_def split: sum.splits option.splits)
qed

lemma distinct_batch: "distinct batch_gauges"
  by (simp add: batch_gauges_def pv_power_dc1_def pv_power_dc2_def pv_power_ac_def
      pv_energy_today_def pv_energy_total_def pv_module_temp_def pv_ambient_temp_def
      pv_voltage_dc1_def pv_voltage_dc2_def pv_total_dc_power_def pv_efficiency_def
      pv_exported_energy_def pv_self_use_energy_def)

lemma register_gauges_ok:
  "distinct ns \<Longrightarrow> set ns \<inter> dom reg = {} \<Longrightarrow> \<exists>reg'. register_gauges ns reg = Inr reg'"
proof (induction ns arbitrary: reg)
  case Nil
  then show ?case by simp
next
  case (Cons n ns)
  have n: "reg n = None"
    using Cons.prems by auto
  have dj: "set ns \<inter> dom (reg(n \<mapsto> 0)) = {}"
    using Cons.prems by auto
  have ds: "distinct ns"
    using Cons.prems by simp
  from Cons.IH [OF ds dj] obtain reg' where r: "register_gauges ns (reg(n \<mapsto> 0)) = Inr reg'"
    by blast
  show ?case
    by (simp add: Gauge_def n r)
qed

section \<open>The batch exporter cycle\<close>

lemmas gauge_names =
  pv_power_dc1_def pv_power_dc2_def pv_power_ac_def pv_energy_today_def pv_energy_total_def
  pv_module_temp_def pv_ambient_temp_def pv_voltage_dc1_def pv_voltage_dc2_def
  pv_total_dc_power_def pv_efficiency_def pv_exported_energy_def pv_self_use_energy_def

lemmas column_labels =
  col_dc1_def col_dc2_def col_ac_def col_today_def col_total_def col_module_temp_def
  col_ambient_temp_def col_voltage1_def col_voltage2_def

lemma strip_labels: "map strip csv_header = csv_header"
  by (simp add: csv_header_def column_labels strip_def whitespace_def)

lemma load_pv_table: "load_pv_data (pv_table rs) = Some \<lparr>columns = csv_header, rows = rs\<rparr>"
  by (simp add: load_pv_data_def pv_table_def strip_labels)

lemmas run_defs = update_metrics_def load_pv_table empty_df_def iloc_last_def basic_metrics_def derived_metrics_def
  getitem_def and_then_def column_sum_def cell_def Let_def csv_header_def column_labels gauge_set_def

lemma iloc_last_rows: "iloc_last df = Inr latest \<Longrightarrow> rows df \<noteq> []"
  by (auto simp add: iloc_last_def split: list.splits)

lemma getitem_in_columns:
  assumes "iloc_last df = Inr latest" and "getitem latest label = Inr v"
  shows "label \<in> set (columns df)"
proof -
  obtain r where l: "latest = zip (columns df) r"
    using assms(1) by (auto simp add: iloc_last_def split: list.splits)
  have "map_of latest label = Some v"
    using assms(2) by (simp add: getitem_def split: option.splits)
  then have "(label, v) \<in> set (zip (columns df) r)"
    unfolding l by (rule map_of_SomeD)
  then show ?thesis
    by (rule set_zip_leftD)
qed

lemma update_metrics_run:
  assumes "load_pv_data file = Some df" and "iloc_last df = Inr latest" and "columns df \<noteq> []"
  shows "update_metrics file reg = exec (basic_metrics latest @ derived_metrics df latest) [] reg"
  using assms iloc_last_rows [OF assms(2)]
  by (simp add: update_metrics_def empty_df_def)

lemma complete_getitem:
  assumes "complete latest" and "label \<in> set csv_header"
  shows "\<exists>v. getitem latest label = Inr v"
  using assms by (auto simp add: complete_def getitem_def split: option.splits)

lemma header_members:
  "col_dc1 \<in> set csv_header" "col_dc2 \<in> set csv_header" "col_ac \<in> set csv_header"
  "col_today \<in> set csv_header" "col_total \<in> set csv_header"
  "col_module_temp \<in> set csv_header" "col_ambient_temp \<in> set csv_header"
  "col_voltage1 \<in> set csv_header" "col_voltage2 \<in> set csv_header"
  by (simp_all add: csv_header_def)

text \<open>The block of a cycle whose last row is complete: every expression has a value.\<close>

lemma complete_block:
  assumes il: "iloc_last df = Inr latest" and c: "complete latest"
    and dc1: "getitem latest col_dc1 = Inr dc1"
    and dc2: "getitem latest col_dc2 = Inr dc2"
    and ac: "getitem latest col_ac = Inr ac"
  shows "\<exists>today total mt amb v1 v2.
     basic_metrics latest @ derived_metrics df latest =
       [(pv_power_dc1, Inr dc1), (pv_power_dc2, Inr dc2), (pv_power_ac, Inr ac),
        (pv_energy_today, Inr today), (pv_energy_total, Inr total),
        (pv_module_temp, Inr mt), (pv_ambient_temp, Inr amb),
        (pv_voltage_dc1, Inr v1), (pv_voltage_dc2, Inr v2),
        (pv_total_dc_power, Inr (dc1 + dc2)),
        (pv_efficiency, Inr (if dc1 + dc2 > 0 then (ac / (dc1 + dc2)) * 100 else 0)),
        (pv_exported_energy, Inr (sum_list (map (cell (columns df) col_today) (rows df)) * 0.40)),
        (pv_self_use_energy, Inr (sum_list (map (cell (columns df) col_today) (rows df)) * 0.60))]"
proof -
  obtain today where today: "getitem latest col_today = Inr today"
    using complete_getitem [OF c header_members(4)] by blast
  obtain total where total: "getitem latest col_total = Inr total"
    using complete_getitem [OF c header_members(5)] by blast
  obtain mt where mt: "getitem latest col_module_temp = Inr mt"
    using complete_getitem [OF c header_members(6)] by blast
  obtain amb where amb: "getitem latest col_ambient_temp = Inr amb"
    using complete_getitem [OF c header_members(7)] by blast
  obtain v1 where v1: "getitem latest col_voltage1 = Inr v1"
    using complete_getitem [OF c header_members(8)] by blast
  obtain v2 where v2: "getitem latest col_voltage2 = Inr v2"
    using complete_getitem [OF c header_members(9)] by blast
  have cs: "column_sum df col_today = Inr (sum_list (map (cell (columns df) col_today) (rows df)))"
    using getitem_in_columns [OF il today] by (simp add: column_sum_def)
  have "basic_metrics latest @ derived_metrics df latest =
       [(pv_power_dc1, Inr dc1), (pv_power_dc2, Inr dc2), (pv_power_ac, Inr ac),
        (pv_energy_today, Inr today), (pv_energy_total, Inr total),
        (pv_module_temp, Inr mt), (pv_ambient_temp, Inr amb),
        (pv_voltage_dc1, Inr v1), (pv_voltage_dc2, Inr v2),
        (pv_total_dc_power, Inr (dc1 + dc2)),
        (pv_efficiency, Inr (if dc1 + dc2 > 0 then (ac / (dc1 + dc2)) * 100 else 0)),
        (pv_exported_energy, Inr (sum_list (map (cell (columns df) col_today) (rows df)) * 0.40)),
        (pv_self_use_energy, Inr (sum_list (map (cell (columns df) col_today) (rows df)) * 0.60))]"
    by (simp add: basic_metrics_def derived_metrics_def Let_def and_then_def
        dc1 dc2 ac today total mt amb v1 v2 cs)
  then show ?thesis by blast
qed

lemma complete_columns:
  assumes "iloc_last df = Inr latest" and "complete latest"
  shows "columns df \<noteq> []"
proof -
  obtain v where "getitem latest col_dc1 = Inr v"
    using complete_getitem [OF assms(2) header_members(1)] by blast
  from getitem_in_columns [OF assms(1) this] show ?thesis by auto
qed

lemma complete_cycle:
  assumes ld: "load_pv_data file = Some df" and il: "iloc_last df = Inr latest"
    and c: "complete latest"
    and dc1: "getitem latest col_dc1 = Inr dc1"
    and dc2: "getitem latest col_dc2 = Inr dc2"
    and ac: "getitem latest col_ac = Inr ac"
  shows "raised (update_metrics file reg) = None"
    and "touched (update_metrics file reg) = batch_gauges"
    and "gauges (update_metrics file reg) pv_total_dc_power = Some (dc1 + dc2)"
    and "gauges (update_metrics file reg) pv_efficiency =
           Some (if dc1 + dc2 > 0 then (ac / (dc1 + dc2)) * 100 else 0)"
    and "gauges (update_metrics file reg) pv_exported_energy =
           Some (sum_list (map (cell (columns df) col_today) (rows df)) * 0.40)"
    and "gauges (update_metrics file reg) pv_self_use_energy =
           Some (sum_list (map (cell (columns df) col_today) (rows df)) * 0.60)"
proof -
  obtain today total mt amb v1 v2 where b:
    "basic_metrics latest @ derived_metrics df latest =
       [(pv_power_dc1, Inr dc1), (pv_power_dc2, Inr dc2), (pv_power_ac, Inr ac),
        (pv_energy_today, Inr today), (pv_energy_total, Inr total),
        (pv_module_temp, Inr mt), (pv_ambient_temp, Inr amb),
        (pv_voltage_dc1, Inr v1), (pv_voltage_dc2, Inr v2),
        (pv_total_dc_power, Inr (dc1 + dc2)),
        (pv_efficiency, Inr (if dc1 + dc2 > 0 then (ac / (dc1 + dc2)) * 100 else 0)),
        (pv_exported_energy, Inr (sum_list (map (cell (columns df) col_today) (rows df)) * 0.40)),
        (pv_self_use_energy, Inr (sum_list (map (cell (columns df) col_today) (rows df)) * 0.60))]"
    using complete_block [OF il c dc1 dc2 ac] by blast
  have u: "update_metrics file reg = exec (basic_metrics latest @ derived_metrics df latest) [] reg"
    using ld il complete_columns [OF il c] by (rule update_metrics_run)
  show r: "raised (update_metrics file reg) = None"
    unfolding u b by simp
  show "touched (update_metrics file reg) = batch_gauges"
    unfolding u b by (simp add: batch_gauges_def)
  have d: "distinct (map fst (basic_metrics latest @ derived_metrics df latest))"
    unfolding b by (simp add: gauge_names)
  have r': "raised (exec (basic_metrics latest @ derived_metrics df latest) [] reg) = None"
    using r by (simp add: u)
  show "gauges (update_metrics file reg) pv_total_dc_power = Some (dc1 + dc2)"
    unfolding u by (rule exec_value [OF r' d]) (simp add: b)
  show "gauges (update_metrics file reg) pv_efficiency =
           Some (if dc1 + dc2 > 0 then (ac / (dc1 + dc2)) * 100 else 0)"
    unfolding u by (rule exec_value [OF r' d]) (simp add: b)
  show "gauges (update_metrics file reg) pv_exported_energy =
           Some (sum_list (map (cell (columns df) col_today) (rows df)) * 0.40)"
    unfolding u by (rule exec_value [OF r' d]) (simp add: b)
  show "gauges (update_metrics file reg) pv_self_use_energy =
           Some (sum_list (map (cell (columns df) col_today) (rows df)) * 0.60)"
    unfolding u by (rule exec_value [OF r' d]) (simp add: b)
qed

section \<open>The registered gauges are fixed\<close>

lemma block_names: "map fst (basic_metrics latest @ derived_metrics df latest) = batch_gauges"
  by (simp add: basic_metrics_def derived_metrics_def Let_def batch_gauges_def)

lemma iloc_last_ok: "rows df \<noteq> [] \<Longrightarrow> \<exists>latest. iloc_last df = Inr latest"
  by (cases "rev (rows df)") (simp_all add: iloc_last_def)

lemma update_metrics_cases:
  "update_metrics src reg = skipped reg
   \<or> (\<exists>df latest. update_metrics src reg =
         exec (basic_metrics latest @ derived_metrics df latest) [] reg)"
proof (cases "load_pv_data src")
  case None
  then show ?thesis
    by (simp add: update_metrics_def)
next
  case (Some df)
  show ?thesis
  proof (cases "empty_df df")
    case True
    then show ?thesis
      by (simp add: update_metrics_def Some)
  next
    case False
    then have "rows df \<noteq> []"
      by (simp add: empty_df_def)
    then obtain latest where "iloc_last df = Inr latest"
      using iloc_last_ok by blast
    then have "update_metrics src reg =
        exec (basic_metrics latest @ derived_metrics df latest) [] reg"
      using False by (simp add: update_metrics_def Some)
    then show ?thesis by blast
  qed
qed

lemma update_metrics_dom:
  assumes "set batch_gauges \<subseteq> dom reg"
  shows "dom (gauges (update_metrics src reg)) = dom reg"
proof -
  consider (skip) "update_metrics src reg = skipped reg"
    | (run) df latest where "update_metrics src reg =
        exec (basic_metrics latest @ derived_metrics df latest) [] reg"
    using update_metrics_cases [of src reg] by blast
  then show ?thesis
  proof cases
    case skip
    then show ?thesis by (simp add: skipped_def)
  next
    case run
    have "fst ` set (basic_metrics latest @ derived_metrics df latest) = set batch_gauges"
      using block_names [of latest df] by (metis set_map)
    then have "fst ` set (basic_metrics latest @ derived_metrics df latest) \<subseteq> dom reg"
      using assms by simp
    then show ?thesis
      unfolding run by (rule exec_dom)
  qed
qed

lemma main_loop_dom:
  "set batch_gauges \<subseteq> dom reg \<Longrightarrow> dom (registry_of (main_loop es reg)) = dom reg"
proof (induction es reg rule: main_loop.induct)
  case (1 reg)
  then show ?case by (simp add: registry_of_def)
next
  case (2 es reg)
  then show ?case by (simp add: registry_of_def)
next
  case (3 src es reg)
  have d: "dom (gauges (update_metrics src reg)) = dom reg"
    using "3.prems" by (rule update_metrics_dom)
  then have "set batch_gauges \<subseteq> dom (gauges (update_metrics src reg))"
    using "3.prems" by simp
  from "3.IH" [OF this] show ?case by (simp add: d)
qed

lemma fetch_dom:
  assumes "set live_gauges \<subseteq> dom reg"
  shows "dom (gauges (fetch_and_update_metrics response h reg)) = dom reg"
proof (cases response)
  case (Inl e)
  then show ?thesis by (simp add: fetch_and_update_metrics_def skipped_def)
next
  case (Inr data)
  have "dom (gauges (exec
               [(pv_estimated_power_watts, Inr a1), (pv_cloud_cover_percent, Inr a2),
                (pv_temperature_celsius, Inr a3), (pv_humidity_percent, Inr a4),
                (pv_wind_speed_mps, Inr a5), (pv_uv_index, Inr a6),
                (pv_efficiency_percent, Inr a7)] [] reg)) = dom reg" for a1 a2 a3 a4 a5 a6 a7
    using assms by (intro exec_dom) (simp add: live_gauges_def)
  then show ?thesis
    by (simp add: fetch_and_update_metrics_def Inr Let_def)
qed

lemma poll_loop_dom:
  "set live_gauges \<subseteq> dom reg \<Longrightarrow> dom (poll_loop rs reg) = dom reg"
proof (induction rs reg rule: poll_loop.induct)
  case (1 reg)
  then show ?case by simp
next
  case (2 response current_hour rest reg)
  have d: "dom (gauges (fetch_and_update_metrics response current_hour reg)) = dom reg"
    using "2.prems" by (rule fetch_dom)
  then have "set live_gauges \<subseteq> dom (gauges (fetch_and_update_metrics response current_hour reg))"
    using "2.prems" by simp
  from "2.IH" [OF this] show ?case by (simp add: d)
qed

lemma distinct_live: "distinct live_gauges"
  by (simp add: live_gauges_def pv_estimated_power_watts_def pv_cloud_cover_percent_def
      pv_temperature_celsius_def pv_humidity_percent_def pv_wind_speed_mps_def pv_uv_index_def
      pv_efficiency_percent_def)

text \<open>
  C9. In both exporters the module-level registrations succeed and register exactly the
  listed gauge names; after any finite stretch of the loop the registered names are still
  exactly those, and one more update step leaves them unchanged. Updates set values of
  registered gauges only.
\<close>

theorem gauge_set_fixed:
  "(\<exists>reg0. batch_startup = Inr reg0 \<and> dom reg0 = set batch_gauges
       \<and> (\<forall>es. dom (registry_of (main_loop es reg0)) = set batch_gauges)
       \<and> (\<forall>es src. dom (gauges (update_metrics src (registry_of (main_loop es reg0))))
             = dom (registry_of (main_loop es reg0))))
   \<and> (\<exists>reg0. live_startup = Inr reg0 \<and> dom reg0 = set live_gauges
       \<and> (\<forall>rs. dom (poll_loop rs reg0) = set live_gauges)
       \<and> (\<forall>rs response h. dom (gauges (fetch_and_update_metrics response h (poll_loop rs reg0)))
             = dom (poll_loop rs reg0)))"
proof
  obtain reg0 where r: "register_gauges batch_gauges Map.empty = Inr reg0"
    using register_gauges_ok [OF distinct_batch, of Map.empty] by auto
  have d: "dom reg0 = set batch_gauges"
    using register_gauges_dom [OF r] by simp
  have l: "dom (registry_of (main_loop es reg0)) = set batch_gauges" for es
    using main_loop_dom [of reg0 es] d by simp
  have u: "dom (gauges (update_metrics src (registry_of (main_loop es reg0))))
             = dom (registry_of (main_loop es reg0))" for es src
    by (rule update_metrics_dom) (simp add: l)
  show "\<exists>reg0. batch_startup = Inr reg0 \<and> dom reg0 = set batch_gauges
       \<and> (\<forall>es. dom (registry_of (main_loop es reg0)) = set batch_gauges)
       \<and> (\<forall>es src. dom (gauges (update_metrics src (registry_of (main_loop es reg0))))
             = dom (registry_of (main_loop es reg0)))"
    using r d l u unfolding batch_startup_def by blast
next
  obtain reg0 where r: "register_gauges live_gauges Map.empty = Inr reg0"
    using register_gauges_ok [OF distinct_live, of Map.empty] by auto
  have d: "dom reg0 = set live_gauges"
    using register_gauges_dom [OF r] by simp
  have l: "dom (poll_loop rs reg0) = set live_gauges" for rs
    using poll_loop_dom [of reg0 rs] d by simp
  have u: "dom (gauges (fetch_and_update_metrics response h (poll_loop rs reg0)))
             = dom (poll_loop rs reg0)" for rs response h
    by (rule fetch_dom) (simp add: l)
  show "\<exists>reg0. live_startup = Inr reg0 \<and> dom reg0 = set live_gauges
       \<and> (\<forall>rs. dom (poll_loop rs reg0) = set live_gauges)
       \<and> (\<forall>rs response h. dom (gauges (fetch_and_update_metrics response h (poll_loop rs reg0)))
             = dom (poll_loop rs reg0))"
    using r d l u unfolding live_startup_def by blast
qed

section \<open>Efficiency and the energy split\<close>

lemma sample_latest:
  "iloc_last \<lparr>columns = csv_header, rows = earlier @ [sample_row]\<rparr> = Inr (zip csv_header sample_row)"
  by (simp add: iloc_last_def)

lemma sample_complete: "complete (zip csv_header sample_row)"
  by (simp add: complete_def csv_header_def sample_row_def column_labels)

lemma sample_cells:
  "getitem (zip csv_header sample_row) col_dc1 = Inr 600"
  "getitem (zip csv_header sample_row) col_dc2 = Inr 400"
  "getitem (zip csv_header sample_row) col_ac = Inr 900"
  by (simp_all add: getitem_def csv_header_def sample_row_def column_labels)

text \<open>
  C1, as the code has it. For a last row with all nine cells, whose two DC cells add up
  within the \<^verbatim>\<open>int64\<close> range (so that the addition of the source cannot wrap around), the
  cycle raises nothing, the total DC gauge is the sum of the two string powers, and the
  efficiency gauge is AC power divided by total DC power times 100 when the total DC power
  is positive, and exactly 0 when it is zero or negative. With 1000 W of total DC power and
  900 W of AC power the gauge shows 90.0.
\<close>

theorem efficiency_gauge:
  assumes "load_pv_data src = Some df" and "iloc_last df = Inr latest" and "complete latest"
    and "getitem latest col_dc1 = Inr dc1" and "getitem latest col_dc2 = Inr dc2"
    and "getitem latest col_ac = Inr ac"
    and "int64_range (dc1 + dc2)"
  shows "raised (update_metrics src reg) = None
         \<and> gauges (update_metrics src reg) pv_total_dc_power = Some (dc1 + dc2)
         \<and> gauges (update_metrics src reg) pv_efficiency =
             Some (if dc1 + dc2 > 0 then (ac / (dc1 + dc2)) * 100 else 0)"
  using complete_cycle(1) [OF assms(1-6)] complete_cycle(3) [OF assms(1-6)]
    complete_cycle(4) [OF assms(1-6)]
  by simp

theorem efficiency_gauge_witness:
  "load_pv_data (pv_table [sample_row]) = Some \<lparr>columns = csv_header, rows = [sample_row]\<rparr>
   \<and> iloc_last \<lparr>columns = csv_header, rows = [sample_row]\<rparr> = Inr (zip csv_header sample_row)
   \<and> complete (zip csv_header sample_row)
   \<and> getitem (zip csv_header sample_row) col_dc1 = Inr 600
   \<and> getitem (zip csv_header sample_row) col_dc2 = Inr 400
   \<and> getitem (zip csv_header sample_row) col_ac = Inr 900
   \<and> int64_range (600 + 400)
   \<and> raised (update_metrics (pv_table [sample_row]) (zeroed batch_gauges)) = None
   \<and> gauges (update_metrics (pv_table [sample_row]) (zeroed batch_gauges)) pv_total_dc_power
       = Some 1000
   \<and> gauges (update_metrics (pv_table [sample_row]) (zeroed batch_gauges)) pv_efficiency = Some 90.0"
proof -
  have h1: "load_pv_data (pv_table [sample_row]) = Some \<lparr>columns = csv_header, rows = [sample_row]\<rparr>"
    by (rule load_pv_table)
  have h2: "iloc_last \<lparr>columns = csv_header, rows = [sample_row]\<rparr> = Inr (zip csv_header sample_row)"
    using sample_latest [of "[]"] by simp
  have h7: "int64_range (600 + 400)"
    by (simp add: int64_range_def)
  show ?thesis
    using efficiency_gauge [OF h1 h2 sample_complete sample_cells h7, of "zeroed batch_gauges"]
      h1 h2 sample_complete sample_cells h7
    by simp
qed

text \<open>
  The guard is \<^verbatim>\<open>total_dc > 0\<close>, not \<^verbatim>\<open>total_dc != 0\<close>: at a total DC power of -100 W and an
  AC power of 50 W the gauge is 0, not the quotient times 100.
\<close>

theorem efficiency_negative_dc_counterexample:
  "gauges (update_metrics (pv_table [[- 100, 0, 50, 5, 1000, 40, 20, 300, 310]]) (zeroed batch_gauges))
     pv_efficiency = Some 0
   \<and> gauges (update_metrics (pv_table [[- 100, 0, 50, 5, 1000, 40, 20, 300, 310]]) (zeroed batch_gauges))
     pv_efficiency \<noteq> Some ((50 / (- 100 + 0)) * 100)"
  by (simp add: run_defs gauge_names)

text \<open>
  C2. In the batch exporter the published exported energy and self-use energy are 0.40 and
  0.60 times the total of the yield column and add up to that total; the dashboard's
  \<open>total_exported\<close> and \<open>total_self_use\<close> add up to \<open>total_yield\<close>. The equations are those of
  real arithmetic and hold for every total, negative ones included.
\<close>

theorem energy_split_reconstructs:
  assumes "load_pv_data src = Some df" and "iloc_last df = Inr latest" and "complete latest"
  shows "(\<exists>y e s. column_sum df col_today = Inr y
            \<and> gauges (update_metrics src reg) pv_exported_energy = Some e
            \<and> gauges (update_metrics src reg) pv_self_use_energy = Some s
            \<and> e = y * 0.40 \<and> s = y * 0.60 \<and> e + s = y)
         \<and> total_exported total_yield + total_self_use total_yield = total_yield"
proof
  obtain dc1 where dc1: "getitem latest col_dc1 = Inr dc1"
    using complete_getitem [OF assms(3) header_members(1)] by blast
  obtain dc2 where dc2: "getitem latest col_dc2 = Inr dc2"
    using complete_getitem [OF assms(3) header_members(2)] by blast
  obtain ac where ac: "getitem latest col_ac = Inr ac"
    using complete_getitem [OF assms(3) header_members(3)] by blast
  obtain today where today: "getitem latest col_today = Inr today"
    using complete_getitem [OF assms(3) header_members(4)] by blast
  let ?y = "sum_list (map (cell (columns df) col_today) (rows df))"
  have cs: "column_sum df col_today = Inr ?y"
    using getitem_in_columns [OF assms(2) today] by (simp add: column_sum_def)
  have e: "gauges (update_metrics src reg) pv_exported_energy = Some (?y * 0.40)"
    by (rule complete_cycle(5) [OF assms dc1 dc2 ac])
  have s: "gauges (update_metrics src reg) pv_self_use_energy = Some (?y * 0.60)"
    by (rule complete_cycle(6) [OF assms dc1 dc2 ac])
  have "?y * 0.40 + ?y * 0.60 = ?y"
    by simp
  then show "\<exists>y e s. column_sum df col_today = Inr y
            \<and> gauges (update_metrics src reg) pv_exported_energy = Some e
            \<and> gauges (update_metrics src reg) pv_self_use_energy = Some s
            \<and> e = y * 0.40 \<and> s = y * 0.60 \<and> e + s = y"
    using cs e s by blast
  show "total_exported total_yield + total_self_use total_yield = total_yield"
    by (simp add: total_exported_def total_self_use_def)
qed

theorem energy_split_reconstructs_witness:
  "load_pv_data (pv_table [sample_row]) = Some \<lparr>columns = csv_header, rows = [sample_row]\<rparr>
   \<and> iloc_last \<lparr>columns = csv_header, rows = [sample_row]\<rparr> = Inr (zip csv_header sample_row)
   \<and> complete (zip csv_header sample_row)
   \<and> (\<exists>y e s. column_sum \<lparr>columns = csv_header, rows = [sample_row]\<rparr> col_today = Inr y
         \<and> gauges (update_metrics (pv_table [sample_row]) (zeroed batch_gauges)) pv_exported_energy = Some e
         \<and> gauges (update_metrics (pv_table [sample_row]) (zeroed batch_gauges)) pv_self_use_energy = Some s
         \<and> e = y * 0.40 \<and> s = y * 0.60 \<and> e + s = y)
   \<and> total_exported 5 + total_self_use 5 = 5"
proof -
  have h1: "load_pv_data (pv_table [sample_row]) = Some \<lparr>columns = csv_header, rows = [sample_row]\<rparr>"
    by (rule load_pv_table)
  have h2: "iloc_last \<lparr>columns = csv_header, rows = [sample_row]\<rparr> = Inr (zip csv_header sample_row)"
    using sample_latest [of "[]"] by simp
  show ?thesis
    using energy_split_reconstructs [OF h1 h2 sample_complete, of "zeroed batch_gauges" 5]
      h1 h2 sample_complete
    by simp
qed

section \<open>Skipped and applied cycles\<close>

lemma main_loop_running:
  "KeyboardInterrupt \<notin> set es \<Longrightarrow> \<exists>reg'. main_loop es reg = Running reg'"
  by (induction es reg rule: main_loop.induct) simp_all

lemma update_metrics_no_error:
  assumes "raised (update_metrics src reg) = None"
  shows "(touched (update_metrics src reg) = [] \<and> gauges (update_metrics src reg) = reg)
         \<or> touched (update_metrics src reg) = batch_gauges"
proof -
  consider (skip) "update_metrics src reg = skipped reg"
    | (run) df latest where "update_metrics src reg =
        exec (basic_metrics latest @ derived_metrics df latest) [] reg"
    using update_metrics_cases [of src reg] by blast
  then show ?thesis
  proof cases
    case skip
    then show ?thesis by (simp add: skipped_def)
  next
    case run
    have "raised (exec (basic_metrics latest @ derived_metrics df latest) [] reg) = None"
      using assms by (simp add: run)
    then have "touched (exec (basic_metrics latest @ derived_metrics df latest) [] reg)
                 = [] @ map fst (basic_metrics latest @ derived_metrics df latest)"
      using exec_raised_None by blast
    then have "touched (update_metrics src reg) = batch_gauges"
      unfolding run block_names by simp
    then show ?thesis
      by blast
  qed
qed

lemma exec_touched_acc: "set acc \<subseteq> set (touched (exec ss acc reg))"
proof (induction ss arbitrary: acc reg)
  case Nil
  then show ?case by simp
next
  case (Cons s ss)
  obtain g e where s: "s = (g, e)" by (cases s)
  show ?case
  proof (cases e)
    case (Inl err)
    then show ?thesis by (simp add: s)
  next
    case (Inr v)
    have "set (acc @ [g]) \<subseteq> set (touched (exec ss (acc @ [g]) (gauge_set g v reg)))"
      by (rule Cons.IH)
    then show ?thesis by (simp add: s Inr)
  qed
qed

lemma exec_touched_prefix: "\<exists>rest. acc @ map fst ss = touched (exec ss acc reg) @ rest"
proof (induction ss arbitrary: acc reg)
  case Nil
  then show ?case by simp
next
  case (Cons s ss)
  obtain g e where s: "s = (g, e)" by (cases s)
  show ?case
  proof (cases e)
    case (Inl err)
    then show ?thesis by (simp add: s)
  next
    case (Inr v)
    obtain rest where "(acc @ [g]) @ map fst ss
        = touched (exec ss (acc @ [g]) (gauge_set g v reg)) @ rest"
      using Cons.IH by blast
    then show ?thesis by (simp add: s Inr)
  qed
qed

lemma exec_untouched:
  "g \<notin> set (touched (exec ss acc reg)) \<Longrightarrow> gauges (exec ss acc reg) g = reg g"
proof (induction ss arbitrary: acc reg)
  case Nil
  then show ?case by simp
next
  case (Cons s ss)
  obtain g' e where s: "s = (g', e)" by (cases s)
  show ?case
  proof (cases e)
    case (Inl err)
    then show ?thesis by (simp add: s)
  next
    case (Inr v)
    have n: "g \<notin> set (touched (exec ss (acc @ [g']) (gauge_set g' v reg)))"
      using Cons.prems by (simp add: s Inr)
    have "g' \<in> set (touched (exec ss (acc @ [g']) (gauge_set g' v reg)))"
      using exec_touched_acc [of "acc @ [g']" ss "gauge_set g' v reg"] by simp
    then have ne: "g \<noteq> g'"
      using n by blast
    have "gauges (exec ss (acc @ [g']) (gauge_set g' v reg)) g = gauge_set g' v reg g"
      using n by (rule Cons.IH)
    also have "\<dots> = reg g"
      using ne by (simp add: gauge_set_def)
    finally show ?thesis by (simp add: s Inr)
  qed
qed

lemma update_metrics_prefix: "\<exists>rest. batch_gauges = touched (update_metrics src reg) @ rest"
proof -
  consider (skip) "update_metrics src reg = skipped reg"
    | (run) df latest where "update_metrics src reg =
        exec (basic_metrics latest @ derived_metrics df latest) [] reg"
    using update_metrics_cases [of src reg] by blast
  then show ?thesis
  proof cases
    case skip
    then show ?thesis by (simp add: skipped_def)
  next
    case run
    show ?thesis
      using exec_touched_prefix [of "[]" "basic_metrics latest @ derived_metrics df latest" reg]
      unfolding run block_names by simp
  qed
qed

lemma update_metrics_untouched:
  assumes "g \<notin> set (touched (update_metrics src reg))"
  shows "gauges (update_metrics src reg) g = reg g"
proof -
  consider (skip) "update_metrics src reg = skipped reg"
    | (run) df latest where "update_metrics src reg =
        exec (basic_metrics latest @ derived_metrics df latest) [] reg"
    using update_metrics_cases [of src reg] by blast
  then show ?thesis
  proof cases
    case skip
    then show ?thesis by (simp add: skipped_def)
  next
    case run
    show ?thesis
      using assms unfolding run by (rule exec_untouched)
  qed
qed

lemma read_failure_skips:
  assumes "read_csv src = Inl e"
  shows "load_pv_data src = None" and "update_metrics src reg = skipped reg"
  using assms by (simp_all add: load_pv_data_def update_metrics_def)

text \<open>
  C5, as the code has it. A failed read makes the loader return \<^verbatim>\<open>None\<close> and the cycle leaves
  the registry as it was, as does a table without rows or columns. A cycle that ends without
  an exception has set either no gauge (and changed none) or every gauge. In every cycle the
  gauges set are an initial stretch of the thirteen, in the order of the source, and a gauge
  that was not set keeps its value. No cycle ends the loop: without an interrupt the process
  is still running after any finite stretch, and after each cycle the loop goes on with the
  registry that cycle left. An empty file is a failed read: the loader reports no data and
  the loop goes on with the registry unchanged.
\<close>

theorem batch_cycle_skipped_or_applied:
  "(read_csv srcA = Inl e \<longrightarrow>
       load_pv_data srcA = None \<and> update_metrics srcA reg = skipped reg)
   \<and> (load_pv_data srcB = Some df \<and> empty_df df \<longrightarrow> update_metrics srcB reg = skipped reg)
   \<and> (raised (update_metrics srcC reg) = None \<longrightarrow>
        (touched (update_metrics srcC reg) = [] \<and> gauges (update_metrics srcC reg) = reg)
        \<or> touched (update_metrics srcC reg) = batch_gauges)
   \<and> (\<exists>rest. batch_gauges = touched (update_metrics srcD reg) @ rest)
   \<and> (g \<notin> set (touched (update_metrics srcD reg)) \<longrightarrow>
        gauges (update_metrics srcD reg) g = reg g)
   \<and> (KeyboardInterrupt \<notin> set es \<longrightarrow> (\<exists>reg'. main_loop es reg = Running reg'))
   \<and> main_loop (Cycle srcD # es') reg = main_loop es' (gauges (update_metrics srcD reg))
   \<and> load_pv_data EmptyFile = None
   \<and> update_metrics EmptyFile reg = \<lparr>raised = None, touched = [], gauges = reg\<rparr>
   \<and> main_loop (Cycle EmptyFile # es') reg = main_loop es' reg"
proof (intro conjI impI)
  assume "read_csv srcA = Inl e"
  then show "load_pv_data srcA = None" and "update_metrics srcA reg = skipped reg"
    by (rule read_failure_skips)+
next
  assume "load_pv_data srcB = Some df \<and> empty_df df"
  then show "update_metrics srcB reg = skipped reg"
    by (simp add: update_metrics_def)
next
  assume "raised (update_metrics srcC reg) = None"
  then show "(touched (update_metrics srcC reg) = [] \<and> gauges (update_metrics srcC reg) = reg)
        \<or> touched (update_metrics srcC reg) = batch_gauges"
    by (rule update_metrics_no_error)
next
  show "\<exists>rest. batch_gauges = touched (update_metrics srcD reg) @ rest"
    by (rule update_metrics_prefix)
next
  assume "g \<notin> set (touched (update_metrics srcD reg))"
  then show "gauges (update_metrics srcD reg) g = reg g"
    by (rule update_metrics_untouched)
next
  assume "KeyboardInterrupt \<notin> set es"
  then show "\<exists>reg'. main_loop es reg = Running reg'"
    by (rule main_loop_running)
next
  show "main_loop (Cycle srcD # es') reg = main_loop es' (gauges (update_metrics srcD reg))"
    by simp
  show "load_pv_data EmptyFile = None"
    by (simp add: load_pv_data_def)
  show "update_metrics EmptyFile reg = \<lparr>raised = None, touched = [], gauges = reg\<rparr>"
    by (simp add: update_metrics_def load_pv_data_def skipped_def)
  show "main_loop (Cycle EmptyFile # es') reg = main_loop es' reg"
    by (simp add: update_metrics_def load_pv_data_def skipped_def)
qed

lemma sample_raised: "raised (update_metrics (pv_table [sample_row]) (zeroed batch_gauges)) = None"
  by (simp add: run_defs sample_row_def)

lemmas partial_defs =
  partial_table_def update_metrics_def load_pv_data_def strip_def whitespace_def empty_df_def
  iloc_last_def basic_metrics_def derived_metrics_def getitem_def and_then_def Let_def
  column_labels gauge_set_def zeroed_def batch_gauges_def gauge_names

lemma partial_touched:
  "touched (update_metrics partial_table (zeroed batch_gauges)) = [pv_power_dc1]"
  by (simp add: partial_defs)

theorem batch_cycle_skipped_or_applied_witness:
  "read_csv NoSuchFile = Inl FileNotFoundError
   \<and> update_metrics NoSuchFile (zeroed batch_gauges) = skipped (zeroed batch_gauges)
   \<and> load_pv_data (pv_table []) = Some \<lparr>columns = csv_header, rows = []\<rparr>
   \<and> empty_df \<lparr>columns = csv_header, rows = []\<rparr>
   \<and> update_metrics (pv_table []) (zeroed batch_gauges) = skipped (zeroed batch_gauges)
   \<and> raised (update_metrics (pv_table [sample_row]) (zeroed batch_gauges)) = None
   \<and> touched (update_metrics (pv_table [sample_row]) (zeroed batch_gauges)) = batch_gauges
   \<and> pv_power_dc2 \<notin> set (touched (update_metrics partial_table (zeroed batch_gauges)))
   \<and> gauges (update_metrics partial_table (zeroed batch_gauges)) pv_power_dc2
       = zeroed batch_gauges pv_power_dc2
   \<and> KeyboardInterrupt \<notin> set [Cycle Unparsable, Cycle EmptyFile]
   \<and> main_loop [Cycle Unparsable, Cycle EmptyFile] (zeroed batch_gauges)
       = Running (zeroed batch_gauges)"
proof -
  have h1: "read_csv NoSuchFile = Inl FileNotFoundError"
    by simp
  have h2: "load_pv_data (pv_table []) = Some \<lparr>columns = csv_header, rows = []\<rparr>
            \<and> empty_df \<lparr>columns = csv_header, rows = []\<rparr>"
    by (simp add: load_pv_table empty_df_def)
  have h3: "pv_power_dc2 \<notin> set (touched (update_metrics partial_table (zeroed batch_gauges)))"
    by (simp add: partial_touched gauge_names)
  have h4: "KeyboardInterrupt \<notin> set [Cycle Unparsable, Cycle EmptyFile]"
    by simp
  have t: "touched (update_metrics (pv_table [sample_row]) (zeroed batch_gauges)) \<noteq> []"
    by (simp add: run_defs sample_row_def)
  have l: "main_loop [Cycle Unparsable, Cycle EmptyFile] (zeroed batch_gauges)
             = main_loop [] (zeroed batch_gauges)"
    by (simp add: update_metrics_def load_pv_data_def skipped_def)
  show ?thesis
    using batch_cycle_skipped_or_applied
      [where srcA = NoSuchFile and e = FileNotFoundError and reg = "zeroed batch_gauges"
         and srcB = "pv_table []" and df = "\<lparr>columns = csv_header, rows = []\<rparr>"
         and srcC = "pv_table [sample_row]" and srcD = partial_table and g = pv_power_dc2
         and es = "[Cycle Unparsable, Cycle EmptyFile]" and es' = "[]"]
      h1 h2 sample_raised h3 h4 t l
    by simp
qed

text \<open>
  A cycle is not atomic when an exception leaves \<^verbatim>\<open>update_metrics\<close> midway. For a table that
  has the first DC column only, the first gauge is set to the new value, then the second
  lookup raises \<^verbatim>\<open>KeyError\<close> and the other twelve gauges keep their old values: the cycle
  has updated some gauge and not every gauge.
\<close>

theorem batch_cycle_partial_counterexample:
  "raised (update_metrics partial_table (zeroed batch_gauges)) = Some (KeyError col_dc2)
   \<and> touched (update_metrics partial_table (zeroed batch_gauges)) = [pv_power_dc1]
   \<and> gauges (update_metrics partial_table (zeroed batch_gauges)) pv_power_dc1 = Some 100
   \<and> zeroed batch_gauges pv_power_dc1 = Some 0
   \<and> gauges (update_metrics partial_table (zeroed batch_gauges)) pv_power_dc2
       = zeroed batch_gauges pv_power_dc2
   \<and> touched (update_metrics partial_table (zeroed batch_gauges)) \<noteq> []
   \<and> set (touched (update_metrics partial_table (zeroed batch_gauges))) \<noteq> set batch_gauges"
  by (simp add: partial_defs)

section \<open>What the derived gauges depend on\<close>

lemma derived_split:
  "derived_metrics df latest =
     take 2 (derived_metrics df latest)
     @ [(pv_exported_energy, and_then (column_sum df col_today) (\<lambda>t. Inr (t * 0.40))),
        (pv_self_use_energy, and_then (column_sum df col_today) (\<lambda>t. Inr (t * 0.60)))]"
  by (simp add: derived_metrics_def Let_def)

lemma derived_head: "take 2 (derived_metrics df1 latest) = take 2 (derived_metrics df2 latest)"
  by (simp add: derived_metrics_def Let_def)

lemma block_agree:
  assumes "g \<noteq> pv_exported_energy" and "g \<noteq> pv_self_use_energy"
  shows "gauges (exec (basic_metrics latest @ derived_metrics df1 latest) [] reg) g
         = gauges (exec (basic_metrics latest @ derived_metrics df2 latest) [] reg) g"
proof -
  let ?hd = "basic_metrics latest @ take 2 (derived_metrics df1 latest)"
  let ?t1 = "[(pv_exported_energy, and_then (column_sum df1 col_today) (\<lambda>t. Inr (t * 0.40))),
              (pv_self_use_energy, and_then (column_sum df1 col_today) (\<lambda>t. Inr (t * 0.60)))]"
  let ?t2 = "[(pv_exported_energy, and_then (column_sum df2 col_today) (\<lambda>t. Inr (t * 0.40))),
              (pv_self_use_energy, and_then (column_sum df2 col_today) (\<lambda>t. Inr (t * 0.60)))]"
  have b1: "basic_metrics latest @ derived_metrics df1 latest = ?hd @ ?t1"
    using derived_split [of df1 latest] by simp
  have b2: "basic_metrics latest @ derived_metrics df2 latest = ?hd @ ?t2"
    using derived_split [of df2 latest] derived_head [of df1 latest df2] by simp
  have n1: "g \<notin> fst ` set ?t1" and n2: "g \<notin> fst ` set ?t2"
    using assms by simp_all
  show ?thesis
    unfolding b1 b2 using n1 n2 by (rule exec_append_agree)
qed

lemma empty_latest_block:
  "gauges (exec (basic_metrics [] @ derived_metrics df []) [] reg) = reg"
  by (simp add: basic_metrics_def getitem_def)

lemma update_metrics_gauges:
  assumes "load_pv_data src = Some df" and "iloc_last df = Inr latest"
  shows "gauges (update_metrics src reg) g
         = gauges (exec (basic_metrics latest @ derived_metrics df latest) [] reg) g"
proof (cases "columns df = []")
  case True
  then have "latest = []"
    using assms(2) by (auto simp add: iloc_last_def split: list.splits)
  then show ?thesis
    using True assms(1) by (simp add: update_metrics_def empty_df_def skipped_def empty_latest_block)
next
  case False
  then show ?thesis
    using update_metrics_run [OF assms False] by simp
qed

text \<open>
  C6, as the code has it. Two tables with the same last row, whose two DC cells add up
  within the \<^verbatim>\<open>int64\<close> range, give every gauge other than the exported-energy and self-use
  gauges the same value, whatever their earlier rows are. The exported-energy and self-use
  gauges are 0.40 and 0.60 times the sum of the yield column over all rows of the table,
  where that sum lies within the \<^verbatim>\<open>int64\<close> range.
\<close>

theorem derived_metrics_inputs:
  "(load_pv_data src1 = Some df1 \<and> load_pv_data src2 = Some df2
      \<and> iloc_last df1 = Inr latest \<and> iloc_last df2 = Inr latest
      \<and> dc_sum_in_range latest
      \<and> g \<noteq> pv_exported_energy \<and> g \<noteq> pv_self_use_energy
      \<longrightarrow> gauges (update_metrics src1 reg) g = gauges (update_metrics src2 reg) g)
   \<and> (load_pv_data src = Some df \<and> iloc_last df = Inr latest' \<and> complete latest'
      \<and> int64_range (sum_list (map (cell (columns df) col_today) (rows df)))
      \<longrightarrow> gauges (update_metrics src reg) pv_exported_energy
            = Some (sum_list (map (cell (columns df) col_today) (rows df)) * 0.40)
          \<and> gauges (update_metrics src reg) pv_self_use_energy
            = Some (sum_list (map (cell (columns df) col_today) (rows df)) * 0.60))"
proof (intro conjI impI)
  assume a: "load_pv_data src1 = Some df1 \<and> load_pv_data src2 = Some df2
      \<and> iloc_last df1 = Inr latest \<and> iloc_last df2 = Inr latest
      \<and> dc_sum_in_range latest
      \<and> g \<noteq> pv_exported_energy \<and> g \<noteq> pv_self_use_energy"
  have "gauges (update_metrics src1 reg) g
         = gauges (exec (basic_metrics latest @ derived_metrics df1 latest) [] reg) g"
    using a by (intro update_metrics_gauges) simp_all
  also have "\<dots> = gauges (exec (basic_metrics latest @ derived_metrics df2 latest) [] reg) g"
    using a by (intro block_agree) simp_all
  also have "\<dots> = gauges (update_metrics src2 reg) g"
    using a by (intro update_metrics_gauges [symmetric]) simp_all
  finally show "gauges (update_metrics src1 reg) g = gauges (update_metrics src2 reg) g" .
next
  assume a: "load_pv_data src = Some df \<and> iloc_last df = Inr latest' \<and> complete latest'
      \<and> int64_range (sum_list (map (cell (columns df) col_today) (rows df)))"
  then have ld: "load_pv_data src = Some df" and il: "iloc_last df = Inr latest'"
    and c: "complete latest'"
    by simp_all
  obtain dc1 where dc1: "getitem latest' col_dc1 = Inr dc1"
    using complete_getitem [OF c header_members(1)] by blast
  obtain dc2 where dc2: "getitem latest' col_dc2 = Inr dc2"
    using complete_getitem [OF c header_members(2)] by blast
  obtain ac where ac: "getitem latest' col_ac = Inr ac"
    using complete_getitem [OF c header_members(3)] by blast
  show "gauges (update_metrics src reg) pv_exported_energy
            = Some (sum_list (map (cell (columns df) col_today) (rows df)) * 0.40)"
    by (rule complete_cycle(5) [OF ld il c dc1 dc2 ac])
  show "gauges (update_metrics src reg) pv_self_use_energy
            = Some (sum_list (map (cell (columns df) col_today) (rows df)) * 0.60)"
    by (rule complete_cycle(6) [OF ld il c dc1 dc2 ac])
qed

theorem derived_metrics_inputs_witness:
  "load_pv_data (pv_table [sample_row]) = Some \<lparr>columns = csv_header, rows = [sample_row]\<rparr>
   \<and> load_pv_data (pv_table [earlier_row, sample_row])
        = Some \<lparr>columns = csv_header, rows = [earlier_row, sample_row]\<rparr>
   \<and> iloc_last \<lparr>columns = csv_header, rows = [sample_row]\<rparr> = Inr (zip csv_header sample_row)
   \<and> iloc_last \<lparr>columns = csv_header, rows = [earlier_row, sample_row]\<rparr>
        = Inr (zip csv_header sample_row)
   \<and> dc_sum_in_range (zip csv_header sample_row)
   \<and> pv_efficiency \<noteq> pv_exported_energy \<and> pv_efficiency \<noteq> pv_self_use_energy
   \<and> complete (zip csv_header sample_row)
   \<and> int64_range (sum_list (map (cell csv_header col_today) [earlier_row, sample_row]))
   \<and> gauges (update_metrics (pv_table [sample_row]) (zeroed batch_gauges)) pv_efficiency
       = gauges (update_metrics (pv_table [earlier_row, sample_row]) (zeroed batch_gauges)) pv_efficiency
   \<and> gauges (update_metrics (pv_table [earlier_row, sample_row]) (zeroed batch_gauges)) pv_exported_energy
       = Some 6
   \<and> gauges (update_metrics (pv_table [earlier_row, sample_row]) (zeroed batch_gauges)) pv_self_use_energy
       = Some 9"
proof -
  have h1: "load_pv_data (pv_table [sample_row]) = Some \<lparr>columns = csv_header, rows = [sample_row]\<rparr>"
    by (rule load_pv_table)
  have h2: "load_pv_data (pv_table [earlier_row, sample_row])
        = Some \<lparr>columns = csv_header, rows = [earlier_row, sample_row]\<rparr>"
    by (rule load_pv_table)
  have h3: "iloc_last \<lparr>columns = csv_header, rows = [sample_row]\<rparr> = Inr (zip csv_header sample_row)"
    using sample_latest [of "[]"] by simp
  have h4: "iloc_last \<lparr>columns = csv_header, rows = [earlier_row, sample_row]\<rparr>
        = Inr (zip csv_header sample_row)"
    using sample_latest [of "[earlier_row]"] by simp
  have h5: "pv_efficiency \<noteq> pv_exported_energy \<and> pv_efficiency \<noteq> pv_self_use_energy"
    by (simp add: gauge_names)
  have h6: "dc_sum_in_range (zip csv_header sample_row)"
    by (simp add: dc_sum_in_range_def int64_range_def csv_header_def sample_row_def column_labels)
  have s: "sum_list (map (cell csv_header col_today) [earlier_row, sample_row]) = 15"
    by (simp add: cell_def csv_header_def column_labels earlier_row_def sample_row_def)
  have h7: "int64_range (sum_list (map (cell csv_header col_today) [earlier_row, sample_row]))"
    unfolding s by (simp add: int64_range_def)
  show ?thesis
    using derived_metrics_inputs
      [where ?src1.0 = "pv_table [sample_row]"
         and ?df1.0 = "\<lparr>columns = csv_header, rows = [sample_row]\<rparr>"
         and ?src2.0 = "pv_table [earlier_row, sample_row]"
         and ?df2.0 = "\<lparr>columns = csv_header, rows = [earlier_row, sample_row]\<rparr>"
         and latest = "zip csv_header sample_row" and g = pv_efficiency
         and reg = "zeroed batch_gauges"
         and src = "pv_table [earlier_row, sample_row]"
         and df = "\<lparr>columns = csv_header, rows = [earlier_row, sample_row]\<rparr>"
         and latest' = "zip csv_header sample_row"]
      h1 h2 h3 h4 h5 h6 h7 sample_complete s
    by simp
qed

text \<open>
  Two tables with the same last row and different earlier rows: the exported-energy and
  self-use gauges differ.
\<close>

theorem derived_metrics_earlier_rows_counterexample:
  "last [sample_row] = last [earlier_row, sample_row]
   \<and> gauges (update_metrics (pv_table [sample_row]) (zeroed batch_gauges)) pv_exported_energy
       = Some 2
   \<and> gauges (update_metrics (pv_table [earlier_row, sample_row]) (zeroed batch_gauges)) pv_exported_energy
       = Some 6
   \<and> gauges (update_metrics (pv_table [sample_row]) (zeroed batch_gauges)) pv_self_use_energy
       = Some 3
   \<and> gauges (update_metrics (pv_table [earlier_row, sample_row]) (zeroed batch_gauges)) pv_self_use_energy
       = Some 9"
  by (simp add: run_defs gauge_names sample_row_def earlier_row_def)

end
